theory Spec2Isabelle
  imports Complex_Main "HOL-Library.Word"
begin

section \<open>Python values\<close>

text \<open>
  Python values that the envelope and the handlers move around.  A \<open>dict\<close> is an
  association list read with \<open>map_of\<close> (first binding wins, as built here).  A Python
  \<open>float\<close> is \<open>pyfloat\<close>: a finite binary64 number, read as the real it denotes,
  one of the two infinities, or NaN.  \<open>PyDatetime\<close> is a \<open>datetime\<close> object, carried
  as its ISO-8601 text.  A \<open>str\<close> is a list of characters, one \<open>char\<close> per character:
  texts are over the characters of Windows-1252, which has ASCII at its usual codes and the
  two other characters of the source's literals, the bullet and the en dash, at
  \<open>0x95\<close> and \<open>0x96\<close>.
\<close>

datatype pyfloat = Fin real | PosInf | NegInf | NaN

datatype py =
    PyNone
  | PyBool bool
  | PyInt int
  | PyFloat pyfloat
  | PyStr string
  | PyList "py list"
  | PyDict "(string \<times> py) list"
  | PyDatetime string

type_synonym dict = "(string \<times> py) list"

datatype error =
    ValueError
  | TypeError
  | AttributeError
  | OverflowError
  | ValidationError
  | JSONDecodeError
  | UnicodeDecodeError
  | RuntimeError
  | RetryError

section \<open>Float arithmetic\<close>

text \<open>
  Python computes on floats in IEEE 754 binary64 with rounding to nearest, ties to even:
  the result of an operation is the exact result rounded to 53 significant bits.  The
  spacing of the numbers around \<open>x\<close> is \<open>2 ^ (e - 52)\<close> where
  \<open>2 ^ e \<le> \<bar>x\<bar> < 2 ^ (e + 1)\<close>; below \<open>2 ^ (- 1022)\<close> the spacing stays
  \<open>2 ^ (- 1074)\<close>, and a result that rounds to \<open>2 ^ 1024\<close> or more is an infinity.
  Both zeros are the one value \<open>Fin 0\<close>.
\<close>

text \<open>Rounding to the nearest integer, a tie to the even one.\<close>

definition rne :: "real \<Rightarrow> int" where
  "rne x = (let f = \<lfloor>x\<rfloor>; d = x - of_int f
            in if d < 1 / 2 then f else if 1 / 2 < d then f + 1
               else if even f then f else f + 1)"

definition pow2 :: "int \<Rightarrow> real" where
  "pow2 k = (if 0 \<le> k then of_int (2 ^ nat k) else 1 / of_int (2 ^ nat (- k)))"

text \<open>
  The exponent \<open>e\<close> with \<open>2 ^ e \<le> x < 2 ^ (e + 1)\<close> of a positive \<open>x\<close>, found by
  halving or doubling at most \<open>n\<close> times.
\<close>

fun binade :: "nat \<Rightarrow> real \<Rightarrow> int" where
  "binade 0 x = 0"
| "binade (Suc n) x =
     (if 2 \<le> x then binade n (x / 2) + 1
      else if x < 1 then binade n (2 * x) - 1
      else 0)"

definition round_double :: "real \<Rightarrow> pyfloat" where
  "round_double x =
     (if x = 0 then Fin 0
      else let e = max (binade 1100 \<bar>x\<bar>) (- 1022);
               m = rne (x / pow2 (e - 52))
           in if 1023 < e \<or> (e = 1023 \<and> \<bar>m\<bar> = 2 ^ 53)
              then (if 0 < x then PosInf else NegInf)
              else Fin (of_int m * pow2 (e - 52)))"

text \<open>
  The float a decimal literal such as \<open>0.6\<close> denotes, the sum \<open>a + b\<close> of two
  floats, and the difference \<open>a - b\<close> of two finite floats.
\<close>

definition lit :: "real \<Rightarrow> pyfloat" where
  "lit x = round_double x"

fun fadd :: "pyfloat \<Rightarrow> pyfloat \<Rightarrow> pyfloat" where
  "fadd (Fin a) (Fin b) = round_double (a + b)"
| "fadd NaN _ = NaN"
| "fadd _ NaN = NaN"
| "fadd PosInf NegInf = NaN"
| "fadd NegInf PosInf = NaN"
| "fadd PosInf _ = PosInf"
| "fadd _ PosInf = PosInf"
| "fadd NegInf _ = NegInf"
| "fadd _ NegInf = NegInf"

definition fsub :: "real \<Rightarrow> real \<Rightarrow> pyfloat" where
  "fsub a b = round_double (a - b)"

section \<open>Trace context (common\_trace.py)\<close>

text \<open>
  \<open>secrets.token_hex(n)\<close> hex-encodes \<open>n\<close> bytes of operating-system randomness.
  The randomness is an input of the model: an endless supply of bytes, of which each call
  takes the first \<open>n\<close> and leaves the rest.
\<close>

type_synonym entropy = "nat \<Rightarrow> 8 word"

definition hexdigit :: "nat \<Rightarrow> char" where
  "hexdigit n = ''0123456789abcdef'' ! (n mod 16)"

definition hex_byte :: "8 word \<Rightarrow> string" where
  "hex_byte b = [hexdigit (unat b div 16), hexdigit (unat b)]"

definition token_hex :: "nat \<Rightarrow> entropy \<Rightarrow> string \<times> entropy" where
  "token_hex nbytes ent =
     (concat (map (\<lambda>i. hex_byte (ent i)) [0..<nbytes]), (\<lambda>i. ent (i + nbytes)))"

text \<open>\<open>_hex(nbytes)\<close>: \<open>secrets.token_hex(nbytes)\<close>, logged and returned.\<close>

definition p_hex :: "nat \<Rightarrow> entropy \<Rightarrow> string \<times> entropy" where
  "p_hex nbytes ent = token_hex nbytes ent"

text \<open>
  \<open>new_traceparent()\<close>: \<open>f"00-{trace_id}-{span_id}-{flags}"\<close> with
  \<open>trace_id = _hex(16)\<close>, \<open>span_id = _hex(8)\<close>, \<open>flags = "01"\<close>.
\<close>

definition new_traceparent :: "entropy \<Rightarrow> string \<times> entropy" where
  "new_traceparent ent =
     (let (trace_id, ent1) = p_hex 16 ent;
          (span_id, ent2) = p_hex 8 ent1;
          flags = ''01''
      in (''00-'' @ trace_id @ ''-'' @ span_id @ ''-'' @ flags, ent2))"

text \<open>
  \<open>str.split(sep)\<close> for a one-character separator: every occurrence splits, empty
  fields are kept, and the empty string gives one empty field.
\<close>

fun split_on :: "char \<Rightarrow> string \<Rightarrow> string list" where
  "split_on c [] = [[]]"
| "split_on c (x # xs) =
     (if x = c then [] # split_on c xs
      else (case split_on c xs of [] \<Rightarrow> [[x]] | w # ws \<Rightarrow> (x # w) # ws))"

text \<open>
  The tuple assignment \<open>version, trace_id, _, flags = parent.split("-")\<close> raises
  \<open>ValueError\<close> unless the list has exactly four items.
\<close>

fun unpack4 :: "string list \<Rightarrow> error + (string \<times> string \<times> string \<times> string)" where
  "unpack4 [a, b, c, d] = Inr (a, b, c, d)"
| "unpack4 _ = Inl ValueError"

text \<open>
  \<open>child_traceparent(parent)\<close>: the \<open>try\<close> block is the unpacking; the
  \<open>except Exception\<close> branch returns \<open>new_traceparent()\<close>.
\<close>

definition child_traceparent :: "string \<Rightarrow> entropy \<Rightarrow> string \<times> entropy" where
  "child_traceparent parent ent =
     (case unpack4 (split_on CHR ''-'' parent) of
        Inl e \<Rightarrow> new_traceparent ent
      | Inr (version, trace_id, _, flags) \<Rightarrow>
          (let (span_id, ent1) = p_hex 8 ent
           in (''00-'' @ trace_id @ ''-'' @ span_id @ ''-'' @ flags, ent1)))"

text \<open>
  The trace-context format of the specification: four hyphen-separated fields, version,
  32 hex digits of trace id, 16 hex digits of span id, 2 hex digits of flags.
\<close>

definition is_hex :: "char \<Rightarrow> bool" where
  "is_hex c = (c \<in> set ''0123456789abcdef'')"

definition valid_traceparent :: "string \<Rightarrow> bool" where
  "valid_traceparent tp =
     (case split_on CHR ''-'' tp of
        [version, trace_id, span_id, flags] \<Rightarrow>
          version = ''00''
          \<and> length trace_id = 32 \<and> list_all is_hex trace_id
          \<and> length span_id = 16 \<and> list_all is_hex span_id
          \<and> length flags = 2 \<and> list_all is_hex flags
      | _ \<Rightarrow> False)"

definition well_formed :: "string \<Rightarrow> bool" where
  "well_formed tp = (length (split_on CHR ''-'' tp) = 4)"

definition field :: "nat \<Rightarrow> string \<Rightarrow> string option" where
  "field i tp =
     (let fs = split_on CHR ''-'' tp in if i < length fs then Some (fs ! i) else None)"

definition trace_id_component :: "string \<Rightarrow> string option" where
  "trace_id_component tp = field 1 tp"

definition span_id_component :: "string \<Rightarrow> string option" where
  "span_id_component tp = field 2 tp"

text \<open>
  Reading a hex string back as the bytes it encodes (two lower-case hex digits per byte),
  and the bytes that field \<open>i\<close> of a trace context encodes.
\<close>

definition hex_value :: "char \<Rightarrow> nat option" where
  "hex_value c =
     (if c \<in> set ''0123456789'' then Some (of_char c - 48)
      else if c \<in> set ''abcdef'' then Some (of_char c - 87)
      else None)"

fun unhex :: "string \<Rightarrow> 8 word list option" where
  "unhex [] = Some []"
| "unhex [c] = None"
| "unhex (c # d # cs) =
     (case (hex_value c, hex_value d, unhex cs) of
        (Some h, Some l, Some bs) \<Rightarrow> Some (of_nat (16 * h + l) # bs)
      | _ \<Rightarrow> None)"

definition field_bytes :: "nat \<Rightarrow> string \<Rightarrow> 8 word list option" where
  "field_bytes i tp = (case field i tp of None \<Rightarrow> None | Some f \<Rightarrow> unhex f)"

text \<open>
  The hierarchical services carry their own copy of these functions
  (3\_Multi\_Agent\_Hierarchical\_NATS/WriterAgent/common\_context.py): \<open>_hex\<close> and
  \<open>new_traceparent\<close> are the same, and \<open>child_traceparent\<close> also asserts
  \<open>version == "00"\<close>, \<open>len(trace_id) == 32\<close> and \<open>len(flags) == 2\<close> inside the
  \<open>try\<close> block; a failed assertion is caught like the failed unpacking.
\<close>

definition child_traceparent_strict :: "string \<Rightarrow> entropy \<Rightarrow> string \<times> entropy" where
  "child_traceparent_strict parent ent =
     (case unpack4 (split_on CHR ''-'' parent) of
        Inl e \<Rightarrow> new_traceparent ent
      | Inr (version, trace_id, _, flags) \<Rightarrow>
          (if version = ''00'' \<and> length trace_id = 32 \<and> length flags = 2
           then (let (new_span_id, ent1) = p_hex 8 ent
                 in (''00-'' @ trace_id @ ''-'' @ new_span_id @ ''-'' @ flags, ent1))
           else new_traceparent ent))"

text \<open>
  The parents that pass the unpacking and the three assertions: four fields, version
  \<open>00\<close>, a trace id of 32 characters and flags of 2 characters.
\<close>

definition well_formed_strict :: "string \<Rightarrow> bool" where
  "well_formed_strict tp =
     (well_formed tp \<and> field 0 tp = Some ''00''
      \<and> map_option length (field 1 tp) = Some 32
      \<and> map_option length (field 3 tp) = Some 2)"
section \<open>Envelope (common\_envelope.py)\<close>

text \<open>
  What a construction draws from outside: the successive values of \<open>str(uuid4())\<close>,
  the random bytes behind \<open>secrets.token_hex\<close>, and the successive readings of
  \<open>datetime.now(timezone.utc)\<close>.  Each draw takes the head of its supply.
\<close>

record rng =
  uuids :: "nat \<Rightarrow> string"
  bytes :: entropy
  nows :: "nat \<Rightarrow> string"

definition uuid4 :: "rng \<Rightarrow> string \<times> rng" where
  "uuid4 r = (uuids r 0, r\<lparr>uuids := (\<lambda>i. uuids r (Suc i))\<rparr>)"

definition datetime_now :: "rng \<Rightarrow> string \<times> rng" where
  "datetime_now r = (nows r 0, r\<lparr>nows := (\<lambda>i. nows r (Suc i))\<rparr>)"

definition draw_new_traceparent :: "rng \<Rightarrow> string \<times> rng" where
  "draw_new_traceparent r = (let (tp, ent) = new_traceparent (bytes r) in (tp, r\<lparr>bytes := ent\<rparr>))"

definition draw_child_traceparent :: "string \<Rightarrow> rng \<Rightarrow> string \<times> rng" where
  "draw_child_traceparent parent r =
     (let (tp, ent) = child_traceparent parent (bytes r) in (tp, r\<lparr>bytes := ent\<rparr>))"

definition draw_child_traceparent_strict :: "string \<Rightarrow> rng \<Rightarrow> string \<times> rng" where
  "draw_child_traceparent_strict parent r =
     (let (tp, ent) = child_traceparent_strict parent (bytes r) in (tp, r\<lparr>bytes := ent\<rparr>))"

text \<open>
  The P2P envelope (2\_Multi\_Agent\_P2P\_NATS/Common/a2a\_protocol/common\_envelope.py) and the
  hierarchical one (3\_Multi\_Agent\_Hierarchical\_NATS/SectionEditorAgent/common\_envelope.py),
  which adds \<open>created_at\<close>.
\<close>

record envelope =
  envelope_version :: string
  message_id :: string
  conversation_id :: string
  traceparent :: string
  sender :: string
  target :: string
  ttl_ms :: int
  retries :: int
  max_retries :: int
  payload :: dict

record envelope_h = envelope +
  created_at :: string

text \<open>
  The keyword arguments of a constructor call \<open>A2AEnvelope(...)\<close>, each at the type its
  field declares; \<open>None\<close> is an argument that is not passed.  What pydantic does before
  that (matching a decoded JSON object against the field types) is \<open>init_of_doc\<close> below.
\<close>

record init =
  i_envelope_version :: "string option"
  i_message_id :: "string option"
  i_conversation_id :: "string option"
  i_traceparent :: "string option"
  i_sender :: "string option"
  i_target :: "string option"
  i_ttl_ms :: "int option"
  i_retries :: "int option"
  i_max_retries :: "int option"
  i_created_at :: "string option"
  i_payload :: "dict option"

definition or_draw :: "'a option \<Rightarrow> (rng \<Rightarrow> 'a \<times> rng) \<Rightarrow> rng \<Rightarrow> 'a \<times> rng" where
  "or_draw given factory r = (case given of Some v \<Rightarrow> (v, r) | None \<Rightarrow> factory r)"

definition or_default :: "'a option \<Rightarrow> 'a \<Rightarrow> 'a" where
  "or_default given d = (case given of Some v \<Rightarrow> v | None \<Rightarrow> d)"

text \<open>
  P2P \<open>A2AEnvelope\<close>: \<open>conversation_id\<close>, \<open>traceparent\<close>, \<open>sender\<close>,
  \<open>target\<close> and \<open>payload\<close> are required; \<open>message_id\<close> defaults to a fresh
  \<open>uuid4\<close>; there is no validator.
\<close>

definition A2AEnvelope :: "init \<Rightarrow> rng \<Rightarrow> error + (envelope \<times> rng)" where
  "A2AEnvelope a r =
     (let (mid, r1) = or_draw (i_message_id a) uuid4 r
      in case (i_conversation_id a, i_traceparent a, i_sender a, i_target a, i_payload a) of
           (Some cid, Some tp, Some s, Some t, Some p) \<Rightarrow>
             Inr (\<lparr>envelope_version = or_default (i_envelope_version a) ''1.0'',
                   message_id = mid,
                   conversation_id = cid,
                   traceparent = tp,
                   sender = s,
                   target = t,
                   ttl_ms = or_default (i_ttl_ms a) 15000,
                   retries = or_default (i_retries a) 0,
                   max_retries = or_default (i_max_retries a) 2,
                   payload = p\<rparr>, r1)
         | _ \<Rightarrow> Inl ValidationError)"

text \<open>The keyword arguments a \<open>child\<close> call leaves out.\<close>

definition no_args :: init where
  "no_args = \<lparr>i_envelope_version = None, i_message_id = None, i_conversation_id = None,
               i_traceparent = None, i_sender = None, i_target = None, i_ttl_ms = None,
               i_retries = None, i_max_retries = None, i_created_at = None,
               i_payload = None\<rparr>"

text \<open>
  P2P \<open>A2AEnvelope.child(self, *, sender, target, payload, retries=None)\<close>.
\<close>

definition child ::
  "envelope \<Rightarrow> string \<Rightarrow> string \<Rightarrow> dict \<Rightarrow> int option \<Rightarrow> rng \<Rightarrow> error + (envelope \<times> rng)" where
  "child self sender' target' payload' retries' r =
     (let (tp, r1) = draw_child_traceparent (traceparent self) r
      in A2AEnvelope
           (no_args\<lparr>i_conversation_id := Some (conversation_id self),
                    i_traceparent := Some tp,
                    i_sender := Some sender',
                    i_target := Some target',
                    i_ttl_ms := Some (ttl_ms self),
                    i_retries := Some (case retries' of None \<Rightarrow> retries self | Some v \<Rightarrow> v),
                    i_max_retries := Some (max_retries self),
                    i_payload := Some payload'\<rparr>) r1)"

text \<open>
  The field validators of the hierarchical envelope.  A \<open>ValueError\<close> raised in a
  validator reaches the caller as pydantic's \<open>ValidationError\<close>.  Validators run on the
  values passed, not on defaults.
\<close>

definition validate_ttl_ms :: "int \<Rightarrow> error + int" where
  "validate_ttl_ms v = (if v \<le> 0 then Inl ValidationError else Inr v)"

definition validate_retries :: "int \<Rightarrow> error + int" where
  "validate_retries v = (if v < 0 then Inl ValidationError else Inr v)"

definition validated :: "int option \<Rightarrow> (int \<Rightarrow> error + int) \<Rightarrow> int \<Rightarrow> error + int" where
  "validated given validator d = (case given of None \<Rightarrow> Inr d | Some v \<Rightarrow> validator v)"

text \<open>
  Hierarchical \<open>A2AEnvelope\<close>: only \<open>sender\<close> and \<open>target\<close> are required; the
  default factories run in field order.
\<close>

definition A2AEnvelope_h :: "init \<Rightarrow> rng \<Rightarrow> error + (envelope_h \<times> rng)" where
  "A2AEnvelope_h a r =
     (let (mid, r1) = or_draw (i_message_id a) uuid4 r;
          (cid, r2) = or_draw (i_conversation_id a) uuid4 r1;
          (tp, r3) = or_draw (i_traceparent a) draw_new_traceparent r2;
          (now, r4) = or_draw (i_created_at a) datetime_now r3
      in case (i_sender a, i_target a,
               validated (i_ttl_ms a) validate_ttl_ms 15000,
               validated (i_retries a) validate_retries 0,
               validated (i_max_retries a) validate_retries 2) of
           (Some s, Some t, Inr ttl, Inr n, Inr m) \<Rightarrow>
             Inr (\<lparr>envelope_version = or_default (i_envelope_version a) ''1.1'',
                   message_id = mid,
                   conversation_id = cid,
                   traceparent = tp,
                   sender = s,
                   target = t,
                   ttl_ms = ttl,
                   retries = n,
                   max_retries = m,
                   payload = or_default (i_payload a) [],
                   created_at = now\<rparr>, r4)
         | _ \<Rightarrow> Inl ValidationError)"

text \<open>
  \<open>x or y\<close> on an optional string, and on an optional dict: \<open>None\<close> and the empty
  value are falsy.
\<close>

definition str_or :: "string option \<Rightarrow> string \<Rightarrow> string" where
  "str_or x y = (case x of None \<Rightarrow> y | Some s \<Rightarrow> if s = [] then y else s)"

definition dict_or :: "dict option \<Rightarrow> dict \<Rightarrow> dict" where
  "dict_or x y = (case x of None \<Rightarrow> y | Some d \<Rightarrow> if d = [] then y else d)"

text \<open>
  Hierarchical \<open>A2AEnvelope.child(self, *, sender=None, target=None, payload=None,
  retries=None, max_retries=None, ttl_ms=None, keep_span=False)\<close>.  The module imports
  \<open>child_traceparent\<close> from \<open>common_trace\<close>, a file that the hierarchical services do
  not have; their trace module is common\_context.py, whose \<open>child_traceparent\<close> (the
  one with the assertions) is used here.
\<close>

definition child_h ::
  "envelope_h \<Rightarrow> string option \<Rightarrow> string option \<Rightarrow> dict option \<Rightarrow> int option \<Rightarrow> int option
   \<Rightarrow> int option \<Rightarrow> bool \<Rightarrow> rng \<Rightarrow> error + (envelope_h \<times> rng)" where
  "child_h self sender' target' payload' retries' max_retries' ttl_ms' keep_span r =
     (let (new_tp, r1) = (if keep_span then (traceparent self, r)
                          else draw_child_traceparent_strict (traceparent self) r)
      in A2AEnvelope_h
           (no_args\<lparr>i_sender := Some (str_or sender' (sender self)),
                    i_target := Some (str_or target' (target self)),
                    i_conversation_id := Some (conversation_id self),
                    i_traceparent := Some new_tp,
                    i_ttl_ms := Some (case ttl_ms' of Some v \<Rightarrow> v | None \<Rightarrow> ttl_ms self),
                    i_retries := Some (case retries' of None \<Rightarrow> retries self | Some v \<Rightarrow> v),
                    i_max_retries :=
                      Some (case max_retries' of None \<Rightarrow> max_retries self | Some v \<Rightarrow> v),
                    i_payload := Some (dict_or payload' [])\<rparr>) r1)"

section \<open>Python built-ins used by the handlers\<close>

text \<open>
  Truthiness, \<open>x or y\<close>, \<open>dict.get\<close>, \<open>len\<close>, \<open>in\<close>, \<open>float\<close>, \<open>int\<close>,
  \<open>str.strip\<close>, \<open>str.lower\<close> and slicing, on the values above.  Five library
  functions are parameters: how \<open>float\<close> and \<open>int\<close> read a string, what \<open>str\<close>
  prints for a value that is not a string, and how pydantic reads a string for an \<open>int\<close>
  field and a value for a \<open>datetime\<close> field.  \<open>len\<close> of a string counts its
  characters; \<open>lower\<close> and \<open>strip\<close> act on the letters and the white space of the
  alphabet (the ASCII ones, the Latin capitals above \<open>0x80\<close>, the no-break space).
\<close>

record builtins =
  float_of_str :: "string \<Rightarrow> pyfloat option"
  int_of_str :: "string \<Rightarrow> int option"
  str_of :: "py \<Rightarrow> string"
  lax_int_of_str :: "string \<Rightarrow> int option"
  datetime_of :: "py \<Rightarrow> string option"

fun truthy :: "py \<Rightarrow> bool" where
  "truthy PyNone = False"
| "truthy (PyBool b) = b"
| "truthy (PyInt n) = (n \<noteq> 0)"
| "truthy (PyFloat f) = (f \<noteq> Fin 0)"
| "truthy (PyStr s) = (s \<noteq> [])"
| "truthy (PyList xs) = (xs \<noteq> [])"
| "truthy (PyDict d) = (d \<noteq> [])"
| "truthy (PyDatetime t) = True"

definition py_or :: "py \<Rightarrow> py \<Rightarrow> py" where
  "py_or x y = (if truthy x then x else y)"

definition get :: "dict \<Rightarrow> string \<Rightarrow> py \<Rightarrow> py" where
  "get d k dflt = (case map_of d k of Some v \<Rightarrow> v | None \<Rightarrow> dflt)"

text \<open>\<open>data.get(k, dflt)\<close> on a decoded JSON value: only a dict has \<open>get\<close>.\<close>

definition py_get :: "py \<Rightarrow> string \<Rightarrow> py \<Rightarrow> error + py" where
  "py_get data k dflt = (case data of PyDict d \<Rightarrow> Inr (get d k dflt) | _ \<Rightarrow> Inl AttributeError)"

fun py_len :: "py \<Rightarrow> error + nat" where
  "py_len (PyStr s) = Inr (length s)"
| "py_len (PyList xs) = Inr (length xs)"
| "py_len (PyDict d) = Inr (length d)"
| "py_len _ = Inl TypeError"

fun contains :: "string \<Rightarrow> string \<Rightarrow> bool" where
  "contains needle [] = (needle = [])"
| "contains needle (c # cs) =
     (take (length needle) (c # cs) = needle \<or> contains needle cs)"

text \<open>
  \<open>needle in x\<close> for a string needle: substring of a string, element of a list, key
  of a dict; other values are not iterable.
\<close>

fun py_in :: "string \<Rightarrow> py \<Rightarrow> error + bool" where
  "py_in needle (PyStr s) = Inr (contains needle s)"
| "py_in needle (PyList xs) = Inr (PyStr needle \<in> set xs)"
| "py_in needle (PyDict d) = Inr (needle \<in> set (map fst d))"
| "py_in needle _ = Inl TypeError"

definition lower_char :: "char \<Rightarrow> char" where
  "lower_char c =
     (let n = (of_char c :: nat)
      in if (65 \<le> n \<and> n \<le> 90) \<or> (192 \<le> n \<and> n \<le> 222 \<and> n \<noteq> 215)
         then char_of (n + 32)
         else if n = 138 \<or> n = 140 \<or> n = 142 then char_of (n + 16)
         else if n = 159 then char_of (255 :: nat)
         else c)"

definition lower :: "string \<Rightarrow> string" where
  "lower s = map lower_char s"

definition is_space :: "char \<Rightarrow> bool" where
  "is_space c = ((of_char c :: nat) \<in> {9, 10, 11, 12, 13, 28, 29, 30, 31, 32, 160})"

definition strip :: "string \<Rightarrow> string" where
  "strip s = rev (dropWhile is_space (rev (dropWhile is_space s)))"

fun py_strip :: "py \<Rightarrow> error + string" where
  "py_strip (PyStr s) = Inr (strip s)"
| "py_strip _ = Inl AttributeError"

text \<open>\<open>s[:n]\<close>: a negative \<open>n\<close> counts from the end.\<close>

definition slice_to :: "int \<Rightarrow> string \<Rightarrow> string" where
  "slice_to n s = (if 0 \<le> n then take (nat n) s else take (nat (int (length s) + n)) s)"

text \<open>
  \<open>float(x)\<close>.  An \<open>int\<close> is rounded to the nearest float; one that would round to
  an infinity raises \<open>OverflowError\<close>.
\<close>

fun py_float :: "builtins \<Rightarrow> py \<Rightarrow> error + pyfloat" where
  "py_float bi (PyInt n) =
     (case round_double (of_int n) of Fin x \<Rightarrow> Inr (Fin x) | _ \<Rightarrow> Inl OverflowError)"
| "py_float bi (PyBool b) = Inr (Fin (if b then 1 else 0))"
| "py_float bi (PyFloat f) = Inr f"
| "py_float bi (PyStr s) =
     (case float_of_str bi s of Some f \<Rightarrow> Inr f | None \<Rightarrow> Inl ValueError)"
| "py_float bi _ = Inl TypeError"

text \<open>
  \<open>int(x)\<close>: a float is truncated towards zero; an infinity raises
  \<open>OverflowError\<close>, NaN \<open>ValueError\<close>.
\<close>

fun py_int :: "builtins \<Rightarrow> py \<Rightarrow> error + int" where
  "py_int bi (PyInt n) = Inr n"
| "py_int bi (PyBool b) = Inr (if b then 1 else 0)"
| "py_int bi (PyFloat (Fin x)) = Inr (if 0 \<le> x then \<lfloor>x\<rfloor> else \<lceil>x\<rceil>)"
| "py_int bi (PyFloat NaN) = Inl ValueError"
| "py_int bi (PyFloat f) = Inl OverflowError"
| "py_int bi (PyStr s) =
     (case int_of_str bi s of Some n \<Rightarrow> Inr n | None \<Rightarrow> Inl ValueError)"
| "py_int bi _ = Inl TypeError"

definition py_str :: "builtins \<Rightarrow> py \<Rightarrow> string" where
  "py_str bi v = (case v of PyStr s \<Rightarrow> s | _ \<Rightarrow> str_of bi v)"

text \<open>
  Comparison of floats (false whenever NaN is involved), and \<open>min(a, b)\<close>,
  \<open>max(a, b)\<close>, which return \<open>a\<close> unless \<open>b\<close> compares below (above) it.
\<close>

fun flt :: "pyfloat \<Rightarrow> pyfloat \<Rightarrow> bool" where
  "flt (Fin a) (Fin b) = (a < b)"
| "flt NaN _ = False"
| "flt _ NaN = False"
| "flt NegInf NegInf = False"
| "flt NegInf _ = True"
| "flt _ NegInf = False"
| "flt PosInf _ = False"
| "flt _ PosInf = True"

definition py_min :: "pyfloat \<Rightarrow> pyfloat \<Rightarrow> pyfloat" where
  "py_min a b = (if flt b a then b else a)"

definition py_max :: "pyfloat \<Rightarrow> pyfloat \<Rightarrow> pyfloat" where
  "py_max a b = (if flt a b then b else a)"

text \<open>\<open>sep.join(xs)\<close> on strings.\<close>

fun join :: "string \<Rightarrow> string list \<Rightarrow> string" where
  "join sep [] = []"
| "join sep [x] = x"
| "join sep (x # y # ys) = x @ sep @ join sep (y # ys)"

fun the_str :: "py \<Rightarrow> string option" where
  "the_str (PyStr s) = Some s"
| "the_str _ = None"

text \<open>
  \<open>', '.join(sources[:5]) if sources else 'None'\<close>: a list is sliced and joined, which
  needs every item to be a string; a string is sliced and joined character by character;
  any other truthy value cannot be sliced.
\<close>

definition sources_str :: "py \<Rightarrow> error + string" where
  "sources_str sources =
     (if \<not> truthy sources then Inr ''None''
      else case sources of
             PyList xs \<Rightarrow>
               (if list_all (\<lambda>x. the_str x \<noteq> None) (take 5 xs)
                then Inr (join '', '' (map (\<lambda>x. case the_str x of Some s \<Rightarrow> s | None \<Rightarrow> [])
                                         (take 5 xs)))
                else Inl TypeError)
           | PyStr s \<Rightarrow> Inr (join '', '' (map (\<lambda>c. [c]) (take 5 s)))
           | _ \<Rightarrow> Inl TypeError)"

section \<open>Scoring (reviewer\_agent.py, llm\_opemai.py)\<close>

text \<open>
  What the completion service does on one call: the call raises, or it returns a message
  whose content is \<open>None\<close>, is the empty string, is text that \<open>json.loads\<close> rejects, or
  is text that \<open>json.loads\<close> decodes to the given value.  The service is a function of
  the call's number and of the user prompt.
\<close>

datatype llm_reply =
    Call_raises
  | Content_None
  | Content_empty
  | Content_not_json
  | Content_json py

type_synonym llm = "nat \<Rightarrow> string \<Rightarrow> llm_reply"

record verifier_cfg =
  MIN_ACCEPTABLE_SCORE :: pyfloat
  MAX_FEEDBACK_CHARS :: int
  llm_configured :: bool

text \<open>
  The two characters outside ASCII in the literals: the en dash of \<open>"Add 1-2 ..."\<close>
  and the bullet.
\<close>

definition endash :: string where
  "endash = [CHR 0x96]"

definition bullet :: string where
  "bullet = [CHR 0x95]"

text \<open>
  P2P \<open>heuristic_score(text)\<close>.  \<open>heuristic_points\<close> is its arithmetic, as a
  function of the four tests: \<open>score = 5.5\<close> and the four \<open>score += ...\<close>, each a
  float addition of a decimal literal.  \<open>text.lower()\<close> exists on strings only, and the
  \<open>in\<close> tests before it need an iterable.
\<close>

definition heuristic_points :: "bool \<Rightarrow> bool \<Rightarrow> bool \<Rightarrow> bool \<Rightarrow> pyfloat" where
  "heuristic_points key_points sources keyword long =
     (let score = lit 5.5;
          score = (if key_points then fadd score (lit 0.6) else score);
          score = (if sources then fadd score (lit 0.4) else score);
          score = (if keyword then fadd score (lit 0.3) else score);
          score = (if long then fadd score (lit 0.2) else score)
      in score)"

definition heuristic_score :: "py \<Rightarrow> error + (pyfloat \<times> string)" where
  "heuristic_score text =
     (case text of
        PyStr t \<Rightarrow>
          (let score = heuristic_points
                         (contains ''Key points:'' t)
                         (contains ''Sources:'' t)
                         (list_ex (\<lambda>k. contains k (lower t))
                            [''concise'', ''clear'', ''engineer'', ''policy''])
                         (length t > 300);
               fb = (if \<not> contains ''Revision applied:'' t
                     then [''Tighten language; add one explicit action for the reader.'']
                     else [])
                    @ (if \<not> contains ''Sources:'' t
                       then [''Add 1'' @ endash @ ''2 sources for credibility.'']
                       else []);
               final_score = py_min score (lit 10);
               feedback = (if join '' '' fb = [] then ''Looks good.'' else join '' '' fb)
           in Inr (final_score, feedback))
      | PyList xs \<Rightarrow> Inl AttributeError
      | PyDict d \<Rightarrow> Inl AttributeError
      | _ \<Rightarrow> Inl TypeError)"

text \<open>P2P \<open>build_user_prompt(draft, sources, research_notes)\<close>.\<close>

definition build_user_prompt :: "builtins \<Rightarrow> py \<Rightarrow> py \<Rightarrow> py \<Rightarrow> error + string" where
  "build_user_prompt bi draft sources research_notes =
     (case sources_str sources of
        Inl e \<Rightarrow> Inl e
      | Inr src_str \<Rightarrow>
          Inr (''TASK: You are a strict reviewer of tone, safety, and policy adherence.''
               @ [CHR 0x0A, CHR 0x0A] @ ''SOURCES: '' @ src_str
               @ [CHR 0x0A, CHR 0x0A] @ ''RESEARCH_NOTES:'' @ [CHR 0x0A]
               @ py_str bi (py_or research_notes (PyStr ''(not provided)''))
               @ [CHR 0x0A, CHR 0x0A] @ ''DRAFT:'' @ [CHR 0x0A] @ py_str bi draft
               @ [CHR 0x0A, CHR 0x0A] @ ''Scoring rubric (holistic):'' @ [CHR 0x0A]
               @ ''- Clarity & conciseness for the target audience'' @ [CHR 0x0A]
               @ ''- Tone & professionalism; avoid hype'' @ [CHR 0x0A]
               @ ''- Policy/safety risk (no PII, no prohibited content, no unsafe claims)''
               @ [CHR 0x0A]
               @ ''- Use of sources (if present): attribution and correctness'' @ [CHR 0x0A]
               @ ''- Technical accuracy relative to the notes'' @ [CHR 0x0A, CHR 0x0A]
               @ ''Output JSON only.''))"

text \<open>
  The \<open>try\<close> block of P2P \<open>score_with_llm\<close>, from the prompt to a
  \<open>return\<close>; \<open>Inl\<close> is an exception raised inside it.  Two of its returns are
  \<open>heuristic_score(draft)\<close>: on empty content, and on content that is not JSON.
\<close>

definition llm_score :: "builtins \<Rightarrow> verifier_cfg \<Rightarrow> llm \<Rightarrow> py \<Rightarrow> py \<Rightarrow> py
    \<Rightarrow> error + (pyfloat \<times> string)" where
  "llm_score bi cfg service draft sources research_notes =
     (case build_user_prompt bi draft sources research_notes of
        Inl e \<Rightarrow> Inl e
      | Inr user \<Rightarrow>
          (case service 0 user of
             Call_raises \<Rightarrow> Inl RuntimeError
           | Content_None \<Rightarrow> heuristic_score draft
           | Content_empty \<Rightarrow> heuristic_score draft
           | Content_not_json \<Rightarrow> heuristic_score draft
           | Content_json (PyDict data) \<Rightarrow>
               (case py_float bi (get data ''score'' (PyInt 0)) of
                  Inl e \<Rightarrow> Inl e
                | Inr score \<Rightarrow>
                    (let feedback = strip (py_str bi (get data ''feedback'' (PyStr [])));
                         score = py_max (Fin 1) (py_min (Fin 10) score);
                         feedback =
                           (if feedback = []
                            then ''Clarify the main point; add 1'' @ endash
                                 @ ''2 concrete, testable tips.''
                            else feedback);
                         feedback =
                           (if int (length feedback) > MAX_FEEDBACK_CHARS cfg
                            then slice_to (max 0 (MAX_FEEDBACK_CHARS cfg - 3)) feedback @ ''...''
                            else feedback)
                     in Inr (score, feedback)))
           | Content_json _ \<Rightarrow> Inl AttributeError))"

text \<open>
  P2P \<open>score_with_llm(draft, sources, research_notes)\<close>: without a configured model,
  and on every failure above, the heuristic score of the draft.
\<close>

definition score_with_llm :: "builtins \<Rightarrow> verifier_cfg \<Rightarrow> llm \<Rightarrow> py \<Rightarrow> py \<Rightarrow> py
    \<Rightarrow> error + (pyfloat \<times> string)" where
  "score_with_llm bi cfg service draft sources research_notes =
     (if \<not> llm_configured cfg then heuristic_score draft
      else case llm_score bi cfg service draft sources research_notes of
             Inr result \<Rightarrow> Inr result
           | Inl e \<Rightarrow> heuristic_score draft)"

text \<open>
  Hierarchical \<open>heuristic_score(text)\<close>: only \<open>in\<close> and \<open>len\<close> touch the text.
  \<open>heuristic_points_h\<close> is its arithmetic, as a function of the three tests.
\<close>

definition heuristic_points_h :: "bool \<Rightarrow> bool \<Rightarrow> bool \<Rightarrow> pyfloat" where
  "heuristic_points_h key_point takeaway long =
     (let score = lit 5.5;
          score = (if key_point then fadd score (lit 0.5) else score);
          score = (if takeaway then fadd score (lit 0.3) else score);
          score = (if long then fadd score (lit 0.4) else score)
      in score)"

definition heuristic_score_h :: "verifier_cfg \<Rightarrow> py \<Rightarrow> error + (pyfloat \<times> string)" where
  "heuristic_score_h cfg text =
     (case (py_in ''Key point'' text, py_in bullet text, py_in ''Takeaway'' text,
            py_len text, py_in ''Sources:'' text) of
        (Inr kp, Inr bl, Inr tk, Inr n, Inr src) \<Rightarrow>
          (let score = heuristic_points_h (kp \<or> bl) tk (n > 300);
               feedback = (if \<not> src
                           then ''Add 1'' @ endash
                                @ ''2 credible sources and tighten the lead sentence.''
                           else ''Looks good.'')
           in Inr (py_min score (lit 10), slice_to (MAX_FEEDBACK_CHARS cfg) feedback))
      | _ \<Rightarrow> Inl TypeError)"

text \<open>
  The inner \<open>try\<close> block of hierarchical \<open>score_with_llm\<close>: \<open>json.loads\<close>,
  \<open>float(data.get("score", 0))\<close> and \<open>(data.get("feedback") or "").strip()\<close>.
\<close>

definition parse_reply_h :: "builtins \<Rightarrow> llm_reply \<Rightarrow> error + (pyfloat \<times> string)" where
  "parse_reply_h bi reply =
     (case reply of
        Content_json (PyDict data) \<Rightarrow>
          (case py_float bi (get data ''score'' (PyInt 0)) of
             Inl e \<Rightarrow> Inl e
           | Inr score \<Rightarrow>
               (case py_strip (py_or (get data ''feedback'' PyNone) (PyStr [])) of
                  Inl e \<Rightarrow> Inl e
                | Inr feedback \<Rightarrow> Inr (score, feedback)))
      | Content_json _ \<Rightarrow> Inl AttributeError
      | _ \<Rightarrow> Inl JSONDecodeError)"

text \<open>
  One run of the body of hierarchical \<open>score_with_llm\<close>, as call number \<open>k\<close> of the
  service.  An \<open>Inl\<close> is an exception that leaves the body.  (\<open>_client\<close> is an
  \<open>OpenAI\<close> object, so the \<open>if not _client\<close> branch is never taken.)
\<close>

definition user_prompt_h :: "builtins \<Rightarrow> py \<Rightarrow> py \<Rightarrow> py \<Rightarrow> error + string" where
  "user_prompt_h bi draft sources research_notes =
     (case sources_str sources of
        Inl e \<Rightarrow> Inl e
      | Inr src_str \<Rightarrow>
          Inr (''SOURCES: '' @ src_str @ [CHR 0x0A] @ ''RESEARCH_NOTES:'' @ [CHR 0x0A]
               @ py_str bi (py_or research_notes (PyStr ''(not provided)''))
               @ [CHR 0x0A, CHR 0x0A] @ ''DRAFT:'' @ [CHR 0x0A] @ py_str bi draft
               @ [CHR 0x0A, CHR 0x0A] @ ''Output JSON only.''))"

definition score_attempt_h :: "builtins \<Rightarrow> verifier_cfg \<Rightarrow> llm \<Rightarrow> nat \<Rightarrow> py \<Rightarrow> py \<Rightarrow> py
    \<Rightarrow> error + (pyfloat \<times> string)" where
  "score_attempt_h bi cfg service k draft sources research_notes =
     (case user_prompt_h bi draft sources research_notes of
        Inl e \<Rightarrow> Inl e
      | Inr user \<Rightarrow>
          (case service k user of
             Call_raises \<Rightarrow> Inl RuntimeError
           | Content_None \<Rightarrow> Inl AttributeError
           | reply \<Rightarrow>
               (case parse_reply_h bi reply of
                  Inl e \<Rightarrow> heuristic_score_h cfg draft
                | Inr (score, feedback) \<Rightarrow>
                    (let score = py_max (Fin 1) (py_min (Fin 10) score);
                         feedback =
                           (if feedback = []
                            then ''Clarify the main point and provide a concrete example.''
                            else feedback)
                     in Inr (score, slice_to (MAX_FEEDBACK_CHARS cfg) feedback)))))"

text \<open>
  Hierarchical \<open>score_with_llm\<close> under
  \<open>@retry(wait=wait_exponential(...), stop=stop_after_attempt(3))\<close>: the body runs again
  after an exception, three times at most, and then \<open>RetryError\<close> is raised.
\<close>

definition score_with_llm_h :: "builtins \<Rightarrow> verifier_cfg \<Rightarrow> llm \<Rightarrow> py \<Rightarrow> py \<Rightarrow> py
    \<Rightarrow> error + (pyfloat \<times> string)" where
  "score_with_llm_h bi cfg service draft sources research_notes =
     (case score_attempt_h bi cfg service 0 draft sources research_notes of
        Inr result \<Rightarrow> Inr result
      | Inl e0 \<Rightarrow>
          (case score_attempt_h bi cfg service 1 draft sources research_notes of
             Inr result \<Rightarrow> Inr result
           | Inl e1 \<Rightarrow>
               (case score_attempt_h bi cfg service 2 draft sources research_notes of
                  Inr result \<Rightarrow> Inr result
                | Inl e2 \<Rightarrow> Inl RetryError)))"

section \<open>Serialisation and parsing of envelopes\<close>

text \<open>
  A message on the bus is a byte string.  The model keeps what the receiver's
  \<open>msg.data.decode("utf-8")\<close> and \<open>json.loads\<close> make of it: bytes that do not decode,
  text that is not JSON, or the decoded JSON value.
\<close>

datatype wire = Not_utf8 | Not_json | Doc py

text \<open>
  \<open>json.dumps\<close> raises \<open>TypeError\<close> on a value it has no encoding for; of the
  values here that is \<open>datetime\<close>, anywhere inside.  The text it returns is represented
  by the value it encodes.
\<close>

fun json_serializable :: "py \<Rightarrow> bool" where
  "json_serializable (PyList xs) = list_all json_serializable xs"
| "json_serializable (PyDict d) = list_all (\<lambda>kv. json_serializable (snd kv)) d"
| "json_serializable (PyDatetime t) = False"
| "json_serializable v = True"

definition json_dumps :: "py \<Rightarrow> error + py" where
  "json_dumps v = (if json_serializable v then Inr v else Inl TypeError)"

text \<open>
  Pydantic's JSON mode: a \<open>datetime\<close> becomes its ISO text, a float that is not finite
  becomes \<open>null\<close>.
\<close>

fun json_mode :: "py \<Rightarrow> py" where
  "json_mode (PyList xs) = PyList (map json_mode xs)"
| "json_mode (PyDict d) = PyDict (map (\<lambda>kv. (fst kv, json_mode (snd kv))) d)"
| "json_mode (PyDatetime t) = PyStr t"
| "json_mode (PyFloat (Fin x)) = PyFloat (Fin x)"
| "json_mode (PyFloat f) = PyNone"
| "json_mode v = v"

text \<open>\<open>model_dump()\<close> of the two envelopes, and \<open>model_dump_json()\<close>.\<close>

definition model_dump :: "envelope \<Rightarrow> py" where
  "model_dump e =
     PyDict [(''envelope_version'', PyStr (envelope_version e)),
             (''message_id'', PyStr (message_id e)),
             (''conversation_id'', PyStr (conversation_id e)),
             (''traceparent'', PyStr (traceparent e)),
             (''sender'', PyStr (sender e)),
             (''target'', PyStr (target e)),
             (''ttl_ms'', PyInt (ttl_ms e)),
             (''retries'', PyInt (retries e)),
             (''max_retries'', PyInt (max_retries e)),
             (''payload'', PyDict (payload e))]"

definition model_dump_h :: "envelope_h \<Rightarrow> py" where
  "model_dump_h e =
     PyDict [(''envelope_version'', PyStr (envelope_version e)),
             (''message_id'', PyStr (message_id e)),
             (''conversation_id'', PyStr (conversation_id e)),
             (''traceparent'', PyStr (traceparent e)),
             (''sender'', PyStr (sender e)),
             (''target'', PyStr (target e)),
             (''ttl_ms'', PyInt (ttl_ms e)),
             (''retries'', PyInt (retries e)),
             (''max_retries'', PyInt (max_retries e)),
             (''created_at'', PyDatetime (created_at e)),
             (''payload'', PyDict (payload e))]"

definition model_dump_json_h :: "envelope_h \<Rightarrow> py" where
  "model_dump_json_h e = json_mode (model_dump_h e)"

text \<open>
  What pydantic makes of one key of the decoded object, for a field of type \<open>str\<close>,
  \<open>int\<close> (lax mode: an int, a bool, a float without fractional part in the range of
  a 64-bit integer, a numeric string), \<open>Dict[str, Any]\<close> and \<open>datetime\<close>.  A missing
  key is \<open>None\<close>.
\<close>

definition field_str :: "dict \<Rightarrow> string \<Rightarrow> error + string option" where
  "field_str d k =
     (case map_of d k of
        None \<Rightarrow> Inr None
      | Some (PyStr s) \<Rightarrow> Inr (Some s)
      | Some _ \<Rightarrow> Inl ValidationError)"

definition field_int :: "builtins \<Rightarrow> dict \<Rightarrow> string \<Rightarrow> error + int option" where
  "field_int bi d k =
     (case map_of d k of
        None \<Rightarrow> Inr None
      | Some (PyInt n) \<Rightarrow> Inr (Some n)
      | Some (PyBool b) \<Rightarrow> Inr (Some (if b then 1 else 0))
      | Some (PyFloat (Fin x)) \<Rightarrow>
          (if x = of_int \<lfloor>x\<rfloor> \<and> - (2 ^ 63) \<le> x \<and> x < 2 ^ 63
           then Inr (Some \<lfloor>x\<rfloor>) else Inl ValidationError)
      | Some (PyStr s) \<Rightarrow>
          (case lax_int_of_str bi s of Some n \<Rightarrow> Inr (Some n) | None \<Rightarrow> Inl ValidationError)
      | Some _ \<Rightarrow> Inl ValidationError)"

definition field_dict :: "dict \<Rightarrow> string \<Rightarrow> error + dict option" where
  "field_dict d k =
     (case map_of d k of
        None \<Rightarrow> Inr None
      | Some (PyDict p) \<Rightarrow> Inr (Some p)
      | Some _ \<Rightarrow> Inl ValidationError)"

definition field_datetime :: "builtins \<Rightarrow> dict \<Rightarrow> string \<Rightarrow> error + string option" where
  "field_datetime bi d k =
     (case map_of d k of
        None \<Rightarrow> Inr None
      | Some v \<Rightarrow> (case datetime_of bi v of Some t \<Rightarrow> Inr (Some t) | None \<Rightarrow> Inl ValidationError))"

text \<open>
  The keyword arguments of \<open>A2AEnvelope(**data)\<close>: \<open>data\<close> has to be a dict, every
  known key has to fit its field, other keys are ignored.
\<close>

definition init_of_doc :: "builtins \<Rightarrow> py \<Rightarrow> error + init" where
  "init_of_doc bi data =
     (case data of
        PyDict d \<Rightarrow>
          (case (field_str d ''envelope_version'', field_str d ''message_id'',
                 field_str d ''conversation_id'', field_str d ''traceparent'',
                 field_str d ''sender'', field_str d ''target'') of
             (Inr ev, Inr mid, Inr cid, Inr tp, Inr s, Inr t) \<Rightarrow>
               (case (field_int bi d ''ttl_ms'', field_int bi d ''retries'',
                      field_int bi d ''max_retries'', field_datetime bi d ''created_at'',
                      field_dict d ''payload'') of
                  (Inr ttl, Inr n, Inr m, Inr c, Inr p) \<Rightarrow>
                    Inr \<lparr>i_envelope_version = ev, i_message_id = mid, i_conversation_id = cid,
                         i_traceparent = tp, i_sender = s, i_target = t, i_ttl_ms = ttl,
                         i_retries = n, i_max_retries = m, i_created_at = c, i_payload = p\<rparr>
                | _ \<Rightarrow> Inl ValidationError)
           | _ \<Rightarrow> Inl ValidationError)
      | _ \<Rightarrow> Inl TypeError)"

text \<open>
  The first statements of every handler's \<open>try\<close> block:
  \<open>raw = msg.data.decode("utf-8")\<close>, \<open>data = json.loads(raw)\<close>,
  \<open>env = A2AEnvelope(**data)\<close>.  The P2P envelope has no \<open>created_at\<close> field, so
  that key is ignored there.
\<close>

definition receive :: "builtins \<Rightarrow> wire \<Rightarrow> rng \<Rightarrow> error + (envelope \<times> rng)" where
  "receive bi msg r =
     (case msg of
        Not_utf8 \<Rightarrow> Inl UnicodeDecodeError
      | Not_json \<Rightarrow> Inl JSONDecodeError
      | Doc data \<Rightarrow>
          (case data of
             PyDict d \<Rightarrow>
               (case init_of_doc bi (PyDict (filter (\<lambda>kv. fst kv \<noteq> ''created_at'') d)) of
                  Inl e \<Rightarrow> Inl e
                | Inr a \<Rightarrow> A2AEnvelope a r)
           | _ \<Rightarrow> Inl TypeError))"

definition receive_h :: "builtins \<Rightarrow> wire \<Rightarrow> rng \<Rightarrow> error + (envelope_h \<times> rng)" where
  "receive_h bi msg r =
     (case msg of
        Not_utf8 \<Rightarrow> Inl UnicodeDecodeError
      | Not_json \<Rightarrow> Inl JSONDecodeError
      | Doc data \<Rightarrow>
          (case init_of_doc bi data of
             Inl e \<Rightarrow> Inl e
           | Inr a \<Rightarrow> A2AEnvelope_h a r))"

section \<open>Verifier (reviewer\_agent.py, verify\_service.py)\<close>

definition SERVICE_NAME :: string where
  "SERVICE_NAME = ''verifier@v1''"

definition VERIFY_IN_SUBJECT :: string where
  "VERIFY_IN_SUBJECT = ''demo.verify.in''"

definition WRITE_IN_SUBJECT :: string where
  "WRITE_IN_SUBJECT = ''demo.write.in''"

definition DONE_SUBJECT :: string where
  "DONE_SUBJECT = ''demo.done''"

text \<open>
  A handler returns nothing; what it does is publish.  Its model returns the message it
  published, as subject and JSON value (\<open>nc.publish\<close> is taken to succeed), or the
  exception that its \<open>except\<close> clauses caught and logged, in which case nothing was
  published.
\<close>

definition published :: "error + (string \<times> py) \<Rightarrow> (string \<times> py) list" where
  "published res = (case res of Inl e \<Rightarrow> [] | Inr m \<Rightarrow> [m])"

text \<open>
  P2P \<open>_message_handler\<close> from \<open>payload = env.payload or {}\<close> to the end of the
  \<open>try\<close> block.  The first \<open>logger.info\<close> evaluates \<open>len(draft)\<close> and
  \<open>len(sources)\<close>.
\<close>

definition verify :: "builtins \<Rightarrow> verifier_cfg \<Rightarrow> llm \<Rightarrow> envelope \<Rightarrow> rng
    \<Rightarrow> error + (string \<times> py)" where
  "verify bi cfg service env r =
     (let payload = dict_or (Some (payload env)) [];
          draft = py_or (get payload ''draft'' (PyStr [])) (PyStr []);
          sources = py_or (get payload ''sources'' (PyList [])) (PyList []);
          research_notes = py_or (get payload ''research_notes'' (PyStr [])) (PyStr []);
          task = py_or (get payload ''task'' (PyStr [])) (PyStr [])
      in case (py_len draft, py_len sources) of
           (Inr draft_len, Inr n_sources) \<Rightarrow>
             (case score_with_llm bi cfg service draft sources research_notes of
                Inl e \<Rightarrow> Inl e
              | Inr (score, fb) \<Rightarrow>
                  (if flt score (MIN_ACCEPTABLE_SCORE cfg) \<and> retries env < max_retries env
                   then
                     (case child env SERVICE_NAME ''writer@v1''
                             [(''role'', PyStr ''verifier''), (''task'', task),
                              (''sources'', sources), (''feedback'', PyStr fb)]
                             (Some (retries env + 1)) r of
                        Inl e \<Rightarrow> Inl e
                      | Inr (out, r1) \<Rightarrow>
                          (case json_dumps (model_dump out) of
                             Inl e \<Rightarrow> Inl e
                           | Inr doc \<Rightarrow> Inr (WRITE_IN_SUBJECT, doc)))
                   else
                     (case child env SERVICE_NAME ''client@v1''
                             [(''role'', PyStr ''verifier''), (''draft'', draft),
                              (''score'', PyFloat score), (''sources'', sources)]
                             None r of
                        Inl e \<Rightarrow> Inl e
                      | Inr (out, r1) \<Rightarrow>
                          (case json_dumps (model_dump out) of
                             Inl e \<Rightarrow> Inl e
                           | Inr doc \<Rightarrow> Inr (DONE_SUBJECT, doc)))))
         | _ \<Rightarrow> Inl TypeError)"

definition message_handler :: "builtins \<Rightarrow> verifier_cfg \<Rightarrow> llm \<Rightarrow> wire \<Rightarrow> rng
    \<Rightarrow> error + (string \<times> py)" where
  "message_handler bi cfg service msg r =
     (case receive bi msg r of
        Inl e \<Rightarrow> Inl e
      | Inr (env, r1) \<Rightarrow> verify bi cfg service env r1)"

text \<open>
  Hierarchical \<open>_handle\<close> from \<open>p = env.payload or {}\<close> on.  The revision branch
  publishes \<open>json.dumps(out.model_dump())\<close>, the final branch
  \<open>out.model_dump_json()\<close>.
\<close>

definition verify_h :: "builtins \<Rightarrow> verifier_cfg \<Rightarrow> llm \<Rightarrow> envelope_h \<Rightarrow> rng
    \<Rightarrow> error + (string \<times> py)" where
  "verify_h bi cfg service env r =
     (let p = dict_or (Some (payload env)) [];
          draft = py_or (get p ''draft'' (PyStr [])) (PyStr []);
          sources = py_or (get p ''sources'' (PyList [])) (PyList []);
          rnotes = py_or (get p ''research_notes'' (PyStr [])) (PyStr []);
          task = py_or (get p ''task'' (PyStr [])) (PyStr [])
      in case (py_len draft, py_len sources) of
           (Inr draft_len, Inr n_sources) \<Rightarrow>
             (case score_with_llm_h bi cfg service draft sources rnotes of
                Inl e \<Rightarrow> Inl e
              | Inr (score, fb) \<Rightarrow>
                  (if flt score (MIN_ACCEPTABLE_SCORE cfg) \<and> retries env < max_retries env
                   then
                     (case child_h env (Some SERVICE_NAME) (Some ''writer@v1'')
                             (Some [(''role'', PyStr ''verifier''), (''task'', task),
                                    (''sources'', sources), (''feedback'', PyStr fb)])
                             (Some (retries env + 1)) None None False r of
                        Inl e \<Rightarrow> Inl e
                      | Inr (out, r1) \<Rightarrow>
                          (case json_dumps (model_dump_h out) of
                             Inl e \<Rightarrow> Inl e
                           | Inr doc \<Rightarrow> Inr (WRITE_IN_SUBJECT, doc)))
                   else
                     (case child_h env (Some SERVICE_NAME) (Some ''client@v1'')
                             (Some [(''role'', PyStr ''verifier''), (''draft'', draft),
                                    (''score'', PyFloat score), (''sources'', sources)])
                             None None None False r of
                        Inl e \<Rightarrow> Inl e
                      | Inr (out, r1) \<Rightarrow> Inr (DONE_SUBJECT, model_dump_json_h out))))
         | _ \<Rightarrow> Inl TypeError)"

definition verifier_handle :: "builtins \<Rightarrow> verifier_cfg \<Rightarrow> llm \<Rightarrow> wire \<Rightarrow> rng
    \<Rightarrow> error + (string \<times> py)" where
  "verifier_handle bi cfg service msg r =
     (case receive_h bi msg r of
        Inl e \<Rightarrow> Inl e
      | Inr (env, r1) \<Rightarrow> verify_h bi cfg service env r1)"

section \<open>One branch of a conversation\<close>

text \<open>
  The bus between the Verifier and the Writer.  A branch enters the Verifier as a message
  on \<open>demo.verify.in\<close>.  What the Verifier publishes on \<open>demo.done\<close> ends the
  branch; what it publishes on \<open>demo.write.in\<close> goes to the Writer, whose answer (a
  parameter: the message it publishes on \<open>demo.verify.in\<close>, if it publishes one) enters
  the Verifier again.  \<open>verifier k\<close> is the Verifier handling its \<open>k\<close>-th message of
  the branch, counted from 0; the second result counts the revision hops.
\<close>

datatype outcome = Final py | Dropped | Unfinished

fun run_branch ::
  "(nat \<Rightarrow> wire \<Rightarrow> error + (string \<times> py)) \<Rightarrow> (nat \<Rightarrow> py \<Rightarrow> wire option)
   \<Rightarrow> nat \<Rightarrow> nat \<Rightarrow> wire \<Rightarrow> outcome \<times> nat" where
  "run_branch verifier writer 0 k msg = (Unfinished, k)"
| "run_branch verifier writer (Suc fuel) k msg =
     (case verifier k msg of
        Inl e \<Rightarrow> (Dropped, k)
      | Inr (subject, doc) \<Rightarrow>
          (if subject = DONE_SUBJECT then (Final doc, k)
           else (case writer k doc of
                   None \<Rightarrow> (Dropped, k)
                 | Some msg' \<Rightarrow> run_branch verifier writer fuel (Suc k) msg')))"

text \<open>
  A payload the P2P Verifier can review: it came from JSON, its \<open>draft\<close> is a string
  (or absent or falsy, which reads as the empty string), and its \<open>sources\<close> have a
  length.
\<close>

definition reviewable :: "dict \<Rightarrow> bool" where
  "reviewable p \<longleftrightarrow>
     json_serializable (PyDict p)
     \<and> the_str (py_or (get p ''draft'' (PyStr [])) (PyStr [])) \<noteq> None
     \<and> \<not> isl (py_len (py_or (get p ''sources'' (PyList [])) (PyList [])))"

section \<open>Planners (chief\_editor\_service.py, section\_editor\_service.py)\<close>

definition CHIEF_SERVICE_NAME :: string where
  "CHIEF_SERVICE_NAME = ''chiefEditor@v1''"

definition SECTION_SERVICE_NAME :: string where
  "SECTION_SERVICE_NAME = ''sectionEditor@v1''"

definition SECTION_EDITOR_IN_SUBJECT :: string where
  "SECTION_EDITOR_IN_SUBJECT = ''demo.section.in''"

definition default_style :: string where
  "default_style = ''neutral, SEO-optimized, concise but informative''"

text \<open>
  A planner publishes one message per item, so its model returns the list of messages
  published, in order, and the exception that ended the handler, if one did.  What was
  published before an exception stays published.

  The loop of the Chief Editor: \<open>for t in topics\<close>.  The payload literal evaluates
  \<open>int(payload.get("max_retries", 2))\<close> for every item, before \<open>env.child\<close> is
  called.
\<close>

fun chief_loop ::
  "builtins \<Rightarrow> envelope_h \<Rightarrow> dict \<Rightarrow> int \<Rightarrow> py \<Rightarrow> py \<Rightarrow> string list \<Rightarrow> rng
   \<Rightarrow> (string \<times> py) list \<times> error option" where
  "chief_loop bi env pl max_sections style sources [] r = ([], None)"
| "chief_loop bi env pl max_sections style sources (t # ts) r =
     (case py_int bi (get pl ''max_retries'' (PyInt 2)) of
        Inl e \<Rightarrow> ([], Some e)
      | Inr max_retries' \<Rightarrow>
          (case child_h env (Some CHIEF_SERVICE_NAME) (Some ''section@v1'')
                  (Some [(''role'', PyStr ''chief''), (''topic'', PyStr t),
                         (''max_sections'', PyInt max_sections), (''style'', style),
                         (''sources'', sources), (''max_retries'', PyInt max_retries')])
                  None None None False r of
             Inl e \<Rightarrow> ([], Some e)
           | Inr (out, r1) \<Rightarrow>
               (let (rest, err) = chief_loop bi env pl max_sections style sources ts r1
                in ((SECTION_EDITOR_IN_SUBJECT, model_dump_json_h out) # rest, err))))"

text \<open>
  Chief Editor \<open>_handle\<close>.  The delegate \<open>_agent.propose(area, max_topics)\<close> is a
  parameter: it returns a list of topics or raises.
\<close>

definition chief_handle ::
  "builtins \<Rightarrow> (py \<Rightarrow> int \<Rightarrow> error + string list) \<Rightarrow> wire \<Rightarrow> rng
   \<Rightarrow> (string \<times> py) list \<times> error option" where
  "chief_handle bi propose msg r =
     (case receive_h bi msg r of
        Inl e \<Rightarrow> ([], Some e)
      | Inr (env, r1) \<Rightarrow>
          (let payload = dict_or (Some (payload env)) [];
               area = get payload ''area'' (PyStr ''General'')
           in case py_int bi (get payload ''max_topics'' (PyInt 5)) of
                Inl e \<Rightarrow> ([], Some e)
              | Inr max_topics \<Rightarrow>
                  (case py_int bi (get payload ''max_sections'' (PyInt 6)) of
                     Inl e \<Rightarrow> ([], Some e)
                   | Inr max_sections \<Rightarrow>
                       (let style = get payload ''style'' (PyStr default_style);
                            sources = py_or (get payload ''sources'' (PyList [])) (PyList [])
                        in case propose area max_topics of
                             Inl e \<Rightarrow> ([], Some e)
                           | Inr topics \<Rightarrow>
                               chief_loop bi env payload max_sections style sources topics
                                 r1))))"

text \<open>The loop of the Section Editor: \<open>for sec in sections\<close>.\<close>

fun section_loop ::
  "envelope_h \<Rightarrow> dict \<Rightarrow> py \<Rightarrow> py \<Rightarrow> py \<Rightarrow> int \<Rightarrow> string list \<Rightarrow> rng
   \<Rightarrow> (string \<times> py) list \<times> error option" where
  "section_loop env p topic style sources max_retries' [] r = ([], None)"
| "section_loop env p topic style sources max_retries' (sec # secs) r =
     (case child_h env (Some SECTION_SERVICE_NAME) (Some ''writer@v1'')
             (Some [(''role'', PyStr ''section''), (''topic'', topic),
                    (''section'', PyStr sec), (''style'', style), (''sources'', sources),
                    (''research_notes'', get p ''research_notes'' (PyStr [])),
                    (''task'', get p ''task'' (PyStr [])),
                    (''max_retries'', PyInt max_retries')])
             None None None False r of
        Inl e \<Rightarrow> ([], Some e)
      | Inr (out, r1) \<Rightarrow>
          (let (rest, err) = section_loop env p topic style sources max_retries' secs r1
           in ((WRITE_IN_SUBJECT, model_dump_json_h out) # rest, err)))"

text \<open>
  Section Editor \<open>_handle\<close>, with its delegate \<open>_agent.plan(topic, max_sections)\<close> as
  a parameter.
\<close>

definition section_handle ::
  "builtins \<Rightarrow> (py \<Rightarrow> int \<Rightarrow> error + string list) \<Rightarrow> wire \<Rightarrow> rng
   \<Rightarrow> (string \<times> py) list \<times> error option" where
  "section_handle bi plan msg r =
     (case receive_h bi msg r of
        Inl e \<Rightarrow> ([], Some e)
      | Inr (env, r1) \<Rightarrow>
          (let p = dict_or (Some (payload env)) [];
               topic = get p ''topic'' (PyStr ''Untitled'')
           in case py_int bi (get p ''max_sections'' (PyInt 6)) of
                Inl e \<Rightarrow> ([], Some e)
              | Inr max_sections \<Rightarrow>
                  (let style = get p ''style'' (PyStr default_style);
                       sources = get p ''sources'' (PyList [])
                   in case py_int bi (get p ''max_retries'' (PyInt 2)) of
                        Inl e \<Rightarrow> ([], Some e)
                      | Inr max_retries' \<Rightarrow>
                          (case plan topic max_sections of
                             Inl e \<Rightarrow> ([], Some e)
                           | Inr sections \<Rightarrow>
                               section_loop env p topic style sources max_retries' sections
                                 r1))))"

text \<open>Reading a published envelope: a top-level key, and a key of its payload.\<close>

definition doc_get :: "string \<Rightarrow> py \<Rightarrow> py option" where
  "doc_get k doc = (case doc of PyDict d \<Rightarrow> map_of d k | _ \<Rightarrow> None)"

definition payload_get :: "string \<Rightarrow> py \<Rightarrow> py option" where
  "payload_get k doc = (case doc_get ''payload'' doc of Some p \<Rightarrow> doc_get k p | None \<Rightarrow> None)"

text \<open>
  What the specification asks of a fan-out over \<open>items\<close> from the envelope
  \<open>env\<close>, with \<open>r\<close> the draws left when the loop starts: one message per item on the
  subject, all with the conversation id of \<open>env\<close>, the \<open>i\<close>-th with the \<open>i\<close>-th
  \<open>uuid4\<close> draw as message id and the \<open>i\<close>-th item under \<open>key\<close> in its payload.
\<close>

definition fan_out :: "string \<Rightarrow> string \<Rightarrow> string \<Rightarrow> envelope_h \<Rightarrow> rng \<Rightarrow> string list
    \<Rightarrow> (string \<times> py) list \<Rightarrow> bool" where
  "fan_out subject role key env r items msgs \<longleftrightarrow>
     map fst msgs = replicate (length items) subject
     \<and> map (doc_get ''conversation_id'' \<circ> snd) msgs
         = replicate (length items) (Some (PyStr (conversation_id env)))
     \<and> map (doc_get ''message_id'' \<circ> snd) msgs
         = map (\<lambda>i. Some (PyStr (uuids r i))) [0..<length items]
     \<and> map (payload_get key \<circ> snd) msgs = map (\<lambda>t. Some (PyStr t)) items
     \<and> map (payload_get ''role'' \<circ> snd) msgs = replicate (length items) (Some (PyStr role))"

section \<open>Aggregating client (Client/client.py)\<close>

text \<open>
  \<open>_done_cb(msg)\<close>, the subscription callback on \<open>demo.done\<close>, as a function of the
  queue: a decoded object whose \<open>conversation_id\<close> equals the one the client published
  is put on the queue; anything else, and anything that raises on the way (bytes that do
  not decode, text that is not JSON, a JSON value without \<open>get\<close>), leaves it as it is.
\<close>

definition done_cb :: "string \<Rightarrow> py list \<Rightarrow> wire \<Rightarrow> py list" where
  "done_cb conversation_id' done_queue msg =
     (case msg of
        Doc data \<Rightarrow>
          (case py_get data ''conversation_id'' PyNone of
             Inl e \<Rightarrow> done_queue
           | Inr cid \<Rightarrow>
               if cid = PyStr conversation_id' then done_queue @ [data] else done_queue)
      | _ \<Rightarrow> done_queue)"

text \<open>
  The timeouts of \<open>Config\<close> are floats read from the environment, so they may be
  infinite or NaN.  \<open>expected_results\<close> is an optional int.
\<close>

record client_cfg =
  idle_timeout_sec :: pyfloat
  overall_timeout_sec :: pyfloat
  expected_results :: "int option"

text \<open>
  The variables of the collection loop of \<open>run_client\<close>.  A clock reading is the
  finite float that \<open>time.monotonic()\<close> returns, read as the real it denotes; the
  difference of two readings is computed in float arithmetic (\<open>fsub\<close>).
\<close>

record client_state =
  done_queue :: "py list"
  received :: int
  idle_start :: real
  start_ts :: real

text \<open>
  What one pass of \<open>while True\<close> meets outside the program: the clock at the overall
  check, the messages whose callbacks run while the loop awaits
  \<open>asyncio.wait_for(done_queue.get(), timeout=1.0)\<close>, and the clock read after the
  await (in the idle check, or to reset the idle timer).
\<close>

record tick =
  t_top :: real
  arrivals :: "wire list"
  t_after :: real

datatype stop = Overall_timeout | Idle_timeout | Expected_count | Raised error

text \<open>
  The lines that display an item: \<open>payload = item.get("payload", {})\<close>, then
  \<open>payload.get("score")\<close> and \<open>payload.get("draft", "")\<close>, which need a dict.
\<close>

definition display :: "py \<Rightarrow> error + unit" where
  "display item =
     (case py_get item ''payload'' (PyDict []) of
        Inl e \<Rightarrow> Inl e
      | Inr payload' \<Rightarrow>
          (case py_get payload' ''score'' PyNone of
             Inl e \<Rightarrow> Inl e
           | Inr score \<Rightarrow> Inr ()))"

text \<open>
  One pass of the loop.  \<open>Some\<close> is a \<open>break\<close> (or an exception leaving the loop),
  \<open>None\<close> the next pass.
\<close>

definition loop_pass :: "client_cfg \<Rightarrow> string \<Rightarrow> client_state \<Rightarrow> tick
    \<Rightarrow> stop option \<times> client_state" where
  "loop_pass cfg conversation_id' st tk =
     (if flt (overall_timeout_sec cfg) (fsub (t_top tk) (start_ts st))
      then (Some Overall_timeout, st)
      else
        (case foldl (done_cb conversation_id') (done_queue st) (arrivals tk) of
           [] \<Rightarrow>
             (if flt (idle_timeout_sec cfg) (fsub (t_after tk) (idle_start st))
              then (Some Idle_timeout, st\<lparr>done_queue := []\<rparr>)
              else (None, st\<lparr>done_queue := []\<rparr>))
         | item # rest \<Rightarrow>
             (let st1 = st\<lparr>done_queue := rest, idle_start := t_after tk,
                            received := received st + 1\<rparr>
              in case display item of
                   Inl e \<Rightarrow> (Some (Raised e), st1)
                 | Inr u \<Rightarrow>
                     (case expected_results cfg of
                        None \<Rightarrow> (None, st1)
                      | Some n \<Rightarrow>
                          if n \<noteq> 0 \<and> received st1 \<ge> n then (Some Expected_count, st1)
                          else (None, st1)))))"

text \<open>
  The loop over the passes that were observed; \<open>None\<close> when it is still running after
  the last of them.
\<close>

fun collect :: "client_cfg \<Rightarrow> string \<Rightarrow> client_state \<Rightarrow> tick list
    \<Rightarrow> stop option \<times> client_state" where
  "collect cfg conversation_id' st [] = (None, st)"
| "collect cfg conversation_id' st (tk # tks) =
     (case loop_pass cfg conversation_id' st tk of
        (Some s, st') \<Rightarrow> (Some s, st')
      | (None, st') \<Rightarrow> collect cfg conversation_id' st' tks)"

text \<open>
  \<open>run_client\<close> from the start of collection: \<open>idle_start\<close> and \<open>start_ts\<close> are
  two readings of the clock, the queue holds what arrived between subscribing and here.
  It returns (after logging the count) when the loop breaks, and raises when an exception
  leaves the loop; \<open>main\<close> runs it to completion, and the interpreter exits with status 0
  after a return and 1 after an uncaught exception.
\<close>

definition initial_state :: "py list \<Rightarrow> real \<Rightarrow> real \<Rightarrow> client_state" where
  "initial_state q t0 t1 = \<lparr>done_queue = q, received = 0, idle_start = t0, start_ts = t1\<rparr>"

definition exit_status :: "stop option \<Rightarrow> int option" where
  "exit_status res =
     (case res of
        None \<Rightarrow> None
      | Some (Raised e) \<Rightarrow> Some 1
      | Some s \<Rightarrow> Some 0)"

definition main :: "client_cfg \<Rightarrow> string \<Rightarrow> py list \<Rightarrow> real \<Rightarrow> real \<Rightarrow> tick list
    \<Rightarrow> int option \<times> int" where
  "main cfg conversation_id' q t0 t1 ticks =
     (let (res, st) = collect cfg conversation_id' (initial_state q t0 t1) ticks
      in (exit_status res, received st))"

text \<open>
  A message matches when it decodes to an object whose \<open>conversation_id\<close> is the
  client's, as a string.
\<close>

definition matches :: "string \<Rightarrow> wire \<Rightarrow> bool" where
  "matches cid msg =
     (case msg of
        Doc (PyDict d) \<Rightarrow> map_of d ''conversation_id'' = Some (PyStr cid)
      | _ \<Rightarrow> False)"

definition only_matching :: "string \<Rightarrow> tick \<Rightarrow> tick" where
  "only_matching cid tk = tk\<lparr>arrivals := filter (matches cid) (arrivals tk)\<rparr>"





section \<open>Concrete inputs\<close>

text \<open>
  A supply of draws and two envelopes, used where a statement is evaluated at a concrete
  input.
\<close>

definition rng0 :: rng where
  "rng0 = \<lparr>uuids = (\<lambda>i. ''00000000-0000-4000-8000-0000000000'' @ hex_byte (of_nat i)),
            bytes = (\<lambda>i. of_nat (7 * i + 1)),
            nows = (\<lambda>i. ''2025-01-01T00:00:00.0000'' @ hex_byte (of_nat i) @ ''+00:00'')\<rparr>"

definition env0 :: envelope where
  "env0 = \<lparr>envelope_version = ''1.0'',
            message_id = ''6f1c2f0e-8a53-4d5e-9d0b-3f0c5a1e7b11'',
            conversation_id = ''c0ffee00-0000-4000-8000-000000000001'',
            traceparent = ''00-4bf92f3577b34da6a3ce929d0e0e4736-00f067aa0ba902b7-01'',
            sender = ''writer@v1'',
            target = ''verifier@v1'',
            ttl_ms = 15000,
            retries = 0,
            max_retries = 2,
            payload = [(''role'', PyStr ''writer''), (''task'', PyStr ''Explain NATS''),
                       (''draft'', PyStr ''NATS is a message bus.''),
                       (''sources'', PyList [PyStr ''https://nats.io''])]\<rparr>"

definition env0_h :: envelope_h where
  "env0_h = \<lparr>envelope_version = ''1.1'',
            message_id = ''6f1c2f0e-8a53-4d5e-9d0b-3f0c5a1e7b11'',
            conversation_id = ''c0ffee00-0000-4000-8000-000000000001'',
            traceparent = ''00-4bf92f3577b34da6a3ce929d0e0e4736-00f067aa0ba902b7-01'',
            sender = ''writer@v1'',
            target = ''verifier@v1'',
            ttl_ms = 15000,
            retries = 0,
            max_retries = 2,
            payload = [(''role'', PyStr ''writer''), (''task'', PyStr ''Explain NATS''),
                       (''draft'', PyStr ''NATS is a message bus.''),
                       (''sources'', PyList [PyStr ''https://nats.io''])],
            created_at = ''2025-01-01T00:00:00+00:00''\<rparr>"

text \<open>
  A supply whose next \<open>uuid4\<close> is the identifier of \<open>env0\<close>, and a hierarchical
  envelope whose \<open>traceparent\<close> has four fields but not the version \<open>00\<close>.
\<close>

definition rng_same :: rng where
  "rng_same = rng0\<lparr>uuids := (\<lambda>i. ''6f1c2f0e-8a53-4d5e-9d0b-3f0c5a1e7b11'')\<rparr>"

definition env1_h :: envelope_h where
  "env1_h = env0_h\<lparr>traceparent := ''01-abc-def-01''\<rparr>"

text \<open>
  Library functions that read no string as a number (used below only on strings that
  Python rejects too) and read every string as a \<open>datetime\<close>.
\<close>

definition builtins0 :: builtins where
  "builtins0 = \<lparr>float_of_str = (\<lambda>s. None), int_of_str = (\<lambda>s. None), str_of = (\<lambda>v. ''?''),
                 lax_int_of_str = (\<lambda>s. None),
                 datetime_of = (\<lambda>v. case v of PyStr s \<Rightarrow> Some s | _ \<Rightarrow> None)\<rparr>"

definition cfg0 :: verifier_cfg where
  "cfg0 = \<lparr>MIN_ACCEPTABLE_SCORE = Fin 7, MAX_FEEDBACK_CHARS = 280, llm_configured = True\<rparr>"






text \<open>
  A completion service that scores every draft 5, and a Writer that answers every
  revision request by sending the request's envelope back with a draft in its payload.
\<close>

definition svc_low :: llm where
  "svc_low =
     (\<lambda>k user. Content_json (PyDict [(''score'', PyInt 5),
                                        (''feedback'', PyStr ''Add detail.'')]))"

definition echo_writer :: "nat \<Rightarrow> py \<Rightarrow> wire option" where
  "echo_writer k doc =
     (case doc of
        PyDict d \<Rightarrow>
          Some (Doc (PyDict (map (\<lambda>kv. if fst kv = ''payload''
                                        then (''payload'',
                                              PyDict [(''draft'', PyStr ''A revised draft.'')])
                                        else kv) d)))
      | _ \<Rightarrow> None)"

text \<open>
  The two Verifiers with that service and the default threshold 7.0, as stages of a branch,
  and the message a Writer sends them: \<open>retries = 0\<close>, \<open>max_retries = 2\<close>, a draft
  and one source.
\<close>

definition verifier_p2p0 :: "nat \<Rightarrow> wire \<Rightarrow> error + (string \<times> py)" where
  "verifier_p2p0 k msg = message_handler builtins0 cfg0 svc_low msg rng0"

definition verifier_h0 :: "nat \<Rightarrow> wire \<Rightarrow> error + (string \<times> py)" where
  "verifier_h0 k msg = verifier_handle builtins0 cfg0 svc_low msg rng0"

definition msg0 :: wire where
  "msg0 = Doc (model_dump env0)"

definition msg0_h :: wire where
  "msg0_h = Doc (model_dump_json_h env0_h)"

text \<open>
  A delegate that returns three items, one that returns one, one that returns none; a seed
  message for the Chief Editor, and the same message with \<open>"max_retries": null\<close> in its
  payload.
\<close>

definition delegate3 :: "py \<Rightarrow> int \<Rightarrow> error + string list" where
  "delegate3 x n = Inr [''Edge inference'', ''Satellite data'', ''Model drift'']"

definition delegate1 :: "py \<Rightarrow> int \<Rightarrow> error + string list" where
  "delegate1 x n = Inr [''Edge inference'']"

definition delegate_none :: "py \<Rightarrow> int \<Rightarrow> error + string list" where
  "delegate_none x n = Inr []"

definition seed :: "dict \<Rightarrow> wire" where
  "seed p =
     Doc (PyDict [(''message_id'', PyStr ''6f1c2f0e-8a53-4d5e-9d0b-3f0c5a1e7b11''),
                  (''conversation_id'', PyStr ''c0ffee00-0000-4000-8000-000000000001''),
                  (''sender'', PyStr ''client@v1''),
                  (''target'', PyStr ''chief@v1''),
                  (''payload'', PyDict p),
                  (''retries'', PyInt 0),
                  (''max_retries'', PyInt 0)])"

definition seed_ok :: wire where
  "seed_ok = seed [(''area'', PyStr ''AI in Climate Modeling''), (''max_topics'', PyInt 3),
                   (''max_sections'', PyInt 5), (''max_retries'', PyInt 2)]"

definition seed_null :: wire where
  "seed_null = seed [(''area'', PyStr ''AI in Climate Modeling''), (''max_topics'', PyInt 3),
                     (''max_sections'', PyInt 5), (''max_retries'', PyNone)]"

text \<open>
  For the client: its conversation id; a final message of that conversation, one of
  another conversation, and one of that conversation whose payload is a string; the
  timeouts of the specification's example (idle 2 s, overall 10 s) and a configuration with
  an overall timeout of 1.5 s; runs of the loop, whose clock readings are multiples of
  1/64 s, so that the readings and their differences are floats.
\<close>

definition cid0 :: string where
  "cid0 = ''c0ffee00-0000-4000-8000-000000000001''"

definition final_msg :: wire where
  "final_msg = Doc (PyDict [(''conversation_id'', PyStr cid0),
                            (''payload'', PyDict [(''draft'', PyStr ''Done.''),
                                                  (''score'', PyFloat (Fin 8))])])"

definition other_msg :: wire where
  "other_msg = Doc (PyDict [(''conversation_id'', PyStr ''c0ffee00-0000-4000-8000-000000000002''),
                            (''payload'', PyDict [(''draft'', PyStr ''Other.'')])])"

definition bad_payload_msg :: wire where
  "bad_payload_msg = Doc (PyDict [(''conversation_id'', PyStr cid0),
                                  (''payload'', PyStr ''Done.'')])"

definition client_cfg0 :: client_cfg where
  "client_cfg0 = \<lparr>idle_timeout_sec = Fin 2, overall_timeout_sec = Fin 10,
                   expected_results = None\<rparr>"


definition quiet_run :: "tick list" where
  "quiet_run = [\<lparr>t_top = 0, arrivals = [], t_after = 1.015625\<rparr>,
                \<lparr>t_top = 1.015625, arrivals = [], t_after = 2.03125\<rparr>]"


definition bad_run :: "tick list" where
  "bad_run = [\<lparr>t_top = 0, arrivals = [bad_payload_msg], t_after = 0.5\<rparr>]"

definition mixed_run :: "tick list" where
  "mixed_run = [\<lparr>t_top = 0, arrivals = [other_msg, final_msg, other_msg], t_after = 0.5\<rparr>,
                \<lparr>t_top = 0.5, arrivals = [other_msg], t_after = 1.5\<rparr>,
                \<lparr>t_top = 1.5, arrivals = [], t_after = 2.515625\<rparr>]"

text \<open>
  The run of the specification's example: results at 0.5 s, 1.0 s and 1.5 s, then nothing;
  each empty wait returns a little after its second.
\<close>

definition spec_run :: "tick list" where
  "spec_run = [\<lparr>t_top = 0, arrivals = [final_msg], t_after = 0.5\<rparr>,
               \<lparr>t_top = 0.5, arrivals = [final_msg], t_after = 1\<rparr>,
               \<lparr>t_top = 1, arrivals = [final_msg], t_after = 1.5\<rparr>,
               \<lparr>t_top = 1.5, arrivals = [], t_after = 2.515625\<rparr>,
               \<lparr>t_top = 2.515625, arrivals = [], t_after = 3.53125\<rparr>,
               \<lparr>t_top = 3.53125, arrivals = [], t_after = 4.546875\<rparr>]"

section \<open>Properties of the trace context\<close>

lemma split_on_not_Nil: "split_on c s \<noteq> []"
  by (induction s) (auto split: list.splits)

lemma split_on_field_no_sep: "w \<in> set (split_on c s) \<Longrightarrow> c \<notin> set w"
  by (induction s arbitrary: w) (auto split: if_splits list.splits)

lemma split_on_single: "c \<notin> set a \<Longrightarrow> split_on c a = [a]"
  by (induction a) auto

lemma split_on_append: "c \<notin> set a \<Longrightarrow> split_on c (a @ c # rest) = a # split_on c rest"
  by (induction a) (auto simp: split_on_not_Nil split: list.splits)

lemma hexdigit_is_hex: "is_hex (hexdigit n)"
proof -
  have "k < 16 \<Longrightarrow> is_hex (''0123456789abcdef'' ! k)" for k
    unfolding is_hex_def by (auto simp: eval_nat_numeral less_Suc_eq)
  then show ?thesis
    by (simp add: hexdigit_def)
qed

lemma token_hex_length: "length (fst (token_hex n ent)) = 2 * n"
  by (simp add: token_hex_def length_concat hex_byte_def comp_def sum_list_triv)

lemma token_hex_is_hex: "list_all is_hex (fst (token_hex n ent))"
  by (simp add: token_hex_def list_all_iff hex_byte_def hexdigit_is_hex)

lemma is_hex_not_hyphen: "is_hex c \<Longrightarrow> c \<noteq> CHR ''-''"
  by (auto simp: is_hex_def)

lemma token_hex_no_hyphen: "CHR ''-'' \<notin> set (fst (token_hex n ent))"
  using token_hex_is_hex [of n ent] is_hex_not_hyphen by (auto simp: list_all_iff)


lemma p_hex_no_hyphen: "CHR ''-'' \<notin> set (fst (p_hex n ent))"
  by (simp add: p_hex_def token_hex_no_hyphen)

lemma split_on_traceparent:
  assumes "CHR ''-'' \<notin> set t" "CHR ''-'' \<notin> set s" "CHR ''-'' \<notin> set f"
  shows "split_on CHR ''-'' (''00-'' @ t @ ''-'' @ s @ ''-'' @ f) = [''00'', t, s, f]"
  using assms by (simp add: split_on_append split_on_single)

lemma new_traceparent_fields:
  "split_on CHR ''-'' (fst (new_traceparent ent))
   = [''00'', fst (p_hex 16 ent), fst (p_hex 8 (snd (p_hex 16 ent))), ''01'']"
proof -
  have "fst (new_traceparent ent)
        = ''00-'' @ fst (p_hex 16 ent) @ ''-'' @ fst (p_hex 8 (snd (p_hex 16 ent))) @ ''-'' @ ''01''"
    by (simp add: new_traceparent_def Let_def split_beta)
  then show ?thesis
    using split_on_traceparent [OF p_hex_no_hyphen p_hex_no_hyphen, of "''01''" 16 ent 8 "snd (p_hex 16 ent)"]
    by simp
qed

lemma new_traceparent_valid: "valid_traceparent (fst (new_traceparent ent))"
  unfolding valid_traceparent_def new_traceparent_fields
  by (simp add: p_hex_def token_hex_length token_hex_is_hex is_hex_def)

lemma unpack4_Inr:
  "unpack4 fs = Inr (a, b, c, d) \<longleftrightarrow> fs = [a, b, c, d]"
  by (cases fs rule: unpack4.cases) auto

lemma unpack4_Inl: "unpack4 fs = Inl e \<longleftrightarrow> length fs \<noteq> 4 \<and> e = ValueError"
  by (cases fs rule: unpack4.cases) auto

lemma child_traceparent_fields:
  assumes "split_on CHR ''-'' parent = [version, trace_id, sp, flags]"
  shows "split_on CHR ''-'' (fst (child_traceparent parent ent))
         = [''00'', trace_id, fst (p_hex 8 ent), flags]"
proof -
  have t: "CHR ''-'' \<notin> set trace_id" and f: "CHR ''-'' \<notin> set flags"
    using split_on_field_no_sep [of _ "CHR ''-''" parent] assms by simp_all
  have "fst (child_traceparent parent ent)
        = ''00-'' @ trace_id @ ''-'' @ fst (p_hex 8 ent) @ ''-'' @ flags"
    by (simp add: child_traceparent_def assms split_beta)
  then show ?thesis
    using split_on_traceparent [OF t p_hex_no_hyphen f] by simp
qed

lemma child_traceparent_malformed:
  assumes "\<not> well_formed parent"
  shows "child_traceparent parent ent = new_traceparent ent"
proof -
  obtain e where "unpack4 (split_on CHR ''-'' parent) = Inl e"
    using assms unpack4_Inl [of "split_on CHR ''-'' parent"] by (simp add: well_formed_def)
  then show ?thesis by (simp add: child_traceparent_def)
qed

lemma well_formed_fields:
  assumes "well_formed parent"
  obtains version trace_id sp flags
  where "split_on CHR ''-'' parent = [version, trace_id, sp, flags]"
proof -
  from assms have "length (split_on CHR ''-'' parent) = 4" by (simp add: well_formed_def)
  then obtain a b c d where "split_on CHR ''-'' parent = [a, b, c, d]"
    by (auto simp: length_Suc_conv eval_nat_numeral)
  then show ?thesis using that by blast
qed

lemma hex_value_hexdigit: "hex_value (hexdigit n) = Some (n mod 16)"
proof -
  have "k < 16 \<Longrightarrow> hex_value (''0123456789abcdef'' ! k) = Some k" for k
    unfolding hex_value_def by (auto simp: eval_nat_numeral less_Suc_eq)
  then show ?thesis
    by (simp add: hexdigit_def)
qed

lemma byte_of_digits: "(of_nat (16 * (unat b div 16 mod 16) + unat b mod 16) :: 8 word) = b"
proof -
  have "unat b < 256"
    using unsigned_less [of b, where 'a = nat] by simp
  then have "16 * (unat b div 16 mod 16) + unat b mod 16 = unat b"
    by (simp add: div_less_iff_less_mult)
  then show ?thesis
    by simp
qed

lemma unhex_hex_byte:
  "unhex (hex_byte b @ cs) = (case unhex cs of Some bs \<Rightarrow> Some (b # bs) | None \<Rightarrow> None)"
  using byte_of_digits [of b]
  by (simp add: hex_byte_def hex_value_hexdigit split: option.splits)

lemma unhex_hex_bytes: "unhex (concat (map hex_byte bs)) = Some bs"
  by (induction bs) (simp_all add: unhex_hex_byte)

lemma unhex_token_hex: "unhex (fst (token_hex n ent)) = Some (map ent [0..<n])"
  using unhex_hex_bytes [of "map ent [0..<n]"] by (simp add: token_hex_def comp_def)

lemma map_upt_shift: "map (\<lambda>i. f (i + k)) [0..<n] = map f [k..<k + n]"
  by (induction n) (simp_all add: add.commute)

lemma new_traceparent_bytes:
  "field_bytes 1 (fst (new_traceparent ent)) = Some (map ent [0..<16])"
  "field_bytes 2 (fst (new_traceparent ent)) = Some (map ent [16..<24])"
  "field 3 (fst (new_traceparent ent)) = Some ''01''"
  "snd (new_traceparent ent) = (\<lambda>i. ent (i + 24))"
proof -
  show "field_bytes 1 (fst (new_traceparent ent)) = Some (map ent [0..<16])"
    by (simp add: field_bytes_def field_def new_traceparent_fields p_hex_def unhex_token_hex)
  have "unhex (fst (token_hex 8 (snd (token_hex 16 ent)))) = Some (map ent [16..<16 + 8])"
    unfolding unhex_token_hex by (simp add: token_hex_def map_upt_shift)
  then show "field_bytes 2 (fst (new_traceparent ent)) = Some (map ent [16..<24])"
    by (simp add: field_bytes_def field_def new_traceparent_fields p_hex_def)
  show "field 3 (fst (new_traceparent ent)) = Some ''01''"
    by (simp add: field_def new_traceparent_fields)
  show "snd (new_traceparent ent) = (\<lambda>i. ent (i + 24))"
    by (simp add: new_traceparent_def p_hex_def token_hex_def Let_def split_beta add.assoc)
qed

lemma child_traceparent_snd:
  "well_formed parent \<Longrightarrow> snd (child_traceparent parent ent) = (\<lambda>i. ent (i + 8))"
  by (erule well_formed_fields)
    (simp add: child_traceparent_def p_hex_def token_hex_def split_beta)

text \<open>
  Claim C9.  \<open>child_traceparent\<close> has no exceptional result: its \<open>except Exception\<close>
  branch catches the failed unpacking.  For a parent that does not split into exactly four
  hyphen-separated fields the result is a new root: it has the four-field format (version
  \<open>00\<close>, 32 hex digits, 16 hex digits, 2 hex digits), its trace id is the hex of the
  first 16 bytes of randomness, its span id the hex of the next 8, its flags are
  \<open>01\<close>, and those 24 bytes are used up.  For a parent with four fields the result
  has four fields, version \<open>00\<close>, the parent's trace id and flags, and as span id the
  16 hex digits of the first 8 bytes of randomness, which are used up.
\<close>

theorem child_traceparent_never_raises:
  "(\<not> well_formed parent \<longrightarrow>
      valid_traceparent (fst (child_traceparent parent ent))
      \<and> field_bytes 1 (fst (child_traceparent parent ent)) = Some (map ent [0..<16])
      \<and> field_bytes 2 (fst (child_traceparent parent ent)) = Some (map ent [16..<24])
      \<and> field 3 (fst (child_traceparent parent ent)) = Some ''01''
      \<and> snd (child_traceparent parent ent) = (\<lambda>i. ent (i + 24)))
   \<and> (well_formed parent \<longrightarrow>
      well_formed (fst (child_traceparent parent ent))
      \<and> field 0 (fst (child_traceparent parent ent)) = Some ''00''
      \<and> trace_id_component (fst (child_traceparent parent ent)) = trace_id_component parent
      \<and> field 3 (fst (child_traceparent parent ent)) = field 3 parent
      \<and> map_option length (span_id_component (fst (child_traceparent parent ent))) = Some 16
      \<and> field_bytes 2 (fst (child_traceparent parent ent)) = Some (map ent [0..<8])
      \<and> snd (child_traceparent parent ent) = (\<lambda>i. ent (i + 8)))"
proof (intro conjI impI)
  assume m: "\<not> well_formed parent"
  then have n: "child_traceparent parent ent = new_traceparent ent"
    by (rule child_traceparent_malformed)
  show "valid_traceparent (fst (child_traceparent parent ent))"
    by (simp add: n new_traceparent_valid)
  show "field_bytes 1 (fst (child_traceparent parent ent)) = Some (map ent [0..<16])"
    "field_bytes 2 (fst (child_traceparent parent ent)) = Some (map ent [16..<24])"
    "field 3 (fst (child_traceparent parent ent)) = Some ''01''"
    "snd (child_traceparent parent ent) = (\<lambda>i. ent (i + 24))"
    by (simp_all only: n new_traceparent_bytes)
next
  assume w: "well_formed parent"
  then obtain version trace_id sp flags
    where p: "split_on CHR ''-'' parent = [version, trace_id, sp, flags]"
    by (rule well_formed_fields)
  note c = child_traceparent_fields [OF p, of ent]
  show "well_formed (fst (child_traceparent parent ent))"
    by (simp add: well_formed_def c)
  show "field 0 (fst (child_traceparent parent ent)) = Some ''00''"
    by (simp add: field_def c)
  show "trace_id_component (fst (child_traceparent parent ent)) = trace_id_component parent"
    by (simp add: trace_id_component_def field_def c p)
  show "field 3 (fst (child_traceparent parent ent)) = field 3 parent"
    by (simp add: field_def c p)
  show "map_option length (span_id_component (fst (child_traceparent parent ent))) = Some 16"
    by (simp add: span_id_component_def field_def c p_hex_def token_hex_length)
  show "field_bytes 2 (fst (child_traceparent parent ent)) = Some (map ent [0..<8])"
    by (simp add: field_bytes_def field_def c p_hex_def unhex_token_hex)
  show "snd (child_traceparent parent ent) = (\<lambda>i. ent (i + 8))"
    using w by (rule child_traceparent_snd)
qed

theorem child_traceparent_never_raises_witness:
  "\<not> well_formed ''garbage''
   \<and> fst (child_traceparent ''garbage'' (bytes rng0))
       = ''00-01080f161d242b323940474e555c636a-71787f868d949ba2-01''
   \<and> valid_traceparent (fst (child_traceparent ''garbage'' (bytes rng0)))
   \<and> field_bytes 2 (fst (child_traceparent ''garbage'' (bytes rng0)))
       = Some [0x71, 0x78, 0x7f, 0x86, 0x8d, 0x94, 0x9b, 0xa2]
   \<and> well_formed ''00-4bf92f3577b34da6a3ce929d0e0e4736-00f067aa0ba902b7-01''
   \<and> fst (child_traceparent ''00-4bf92f3577b34da6a3ce929d0e0e4736-00f067aa0ba902b7-01''
            (bytes rng0))
       = ''00-4bf92f3577b34da6a3ce929d0e0e4736-01080f161d242b32-01''
   \<and> trace_id_component
        (fst (child_traceparent ''00-4bf92f3577b34da6a3ce929d0e0e4736-00f067aa0ba902b7-01''
                (bytes rng0)))
      = Some ''4bf92f3577b34da6a3ce929d0e0e4736''
   \<and> field_bytes 2
        (fst (child_traceparent ''00-4bf92f3577b34da6a3ce929d0e0e4736-00f067aa0ba902b7-01''
                (bytes rng0)))
      = Some [0x01, 0x08, 0x0f, 0x16, 0x1d, 0x24, 0x2b, 0x32]"
proof -
  let ?p = "''00-4bf92f3577b34da6a3ce929d0e0e4736-00f067aa0ba902b7-01''"
  have g: "\<not> well_formed ''garbage''"
    by (simp add: well_formed_def)
  have w: "well_formed ?p"
    by (simp add: well_formed_def)
  have t: "trace_id_component ?p = Some ''4bf92f3577b34da6a3ce929d0e0e4736''"
    by (simp add: trace_id_component_def field_def)
  have b: "map (bytes rng0) [16..<24] = [0x71, 0x78, 0x7f, 0x86, 0x8d, 0x94, 0x9b, 0xa2]"
    "map (bytes rng0) [0..<8] = [0x01, 0x08, 0x0f, 0x16, 0x1d, 0x24, 0x2b, 0x32]"
    by code_simp+
  have e: "fst (child_traceparent ''garbage'' (bytes rng0))
           = ''00-01080f161d242b323940474e555c636a-71787f868d949ba2-01''"
    "fst (child_traceparent ?p (bytes rng0))
     = ''00-4bf92f3577b34da6a3ce929d0e0e4736-01080f161d242b32-01''"
    by code_simp+
  note malformed = child_traceparent_never_raises [THEN conjunct1, rule_format]
  note formed = child_traceparent_never_raises [THEN conjunct2, rule_format]
  from malformed [OF g, of "bytes rng0"]
  have 1: "valid_traceparent (fst (child_traceparent ''garbage'' (bytes rng0)))"
    and 2: "field_bytes 2 (fst (child_traceparent ''garbage'' (bytes rng0)))
            = Some [0x71, 0x78, 0x7f, 0x86, 0x8d, 0x94, 0x9b, 0xa2]"
    by (simp_all only: b)
  from formed [OF w, of "bytes rng0"]
  have 3: "trace_id_component (fst (child_traceparent ?p (bytes rng0)))
           = Some ''4bf92f3577b34da6a3ce929d0e0e4736''"
    and 4: "field_bytes 2 (fst (child_traceparent ?p (bytes rng0)))
            = Some [0x01, 0x08, 0x0f, 0x16, 0x1d, 0x24, 0x2b, 0x32]"
    by (simp_all only: b t)
  from g w e 1 2 3 4 show ?thesis
    by (intro conjI)
qed

text \<open>
  The copy of \<open>child_traceparent\<close> with the assertions agrees with the one above on
  every parent in the trace-context format; on any other parent it returns either the same
  child or a new root.
\<close>

lemma child_traceparent_strict_valid:
  "valid_traceparent parent \<Longrightarrow> child_traceparent_strict parent ent = child_traceparent parent ent"
  by (auto simp: valid_traceparent_def child_traceparent_strict_def child_traceparent_def
      split: list.splits)

lemma child_traceparent_strict_cases:
  "child_traceparent_strict parent ent = child_traceparent parent ent
   \<or> child_traceparent_strict parent ent = new_traceparent ent"
  by (auto simp: child_traceparent_strict_def child_traceparent_def split: sum.splits)

lemma child_traceparent_valid:
  "valid_traceparent parent \<Longrightarrow> valid_traceparent (fst (child_traceparent parent ent))"
proof -
  assume v: "valid_traceparent parent"
  then obtain t s f where p: "split_on CHR ''-'' parent = [''00'', t, s, f]"
    and l: "length t = 32" "list_all is_hex t" "length f = 2" "list_all is_hex f"
    by (auto simp: valid_traceparent_def split: list.splits)
  show ?thesis
    unfolding valid_traceparent_def child_traceparent_fields [OF p]
    by (simp add: l p_hex_def token_hex_length token_hex_is_hex)
qed

lemma child_traceparent_strict_ok:
  "well_formed_strict parent \<Longrightarrow> child_traceparent_strict parent ent = child_traceparent parent ent"
  by (erule conjE [OF iffD1 [OF well_formed_strict_def]], erule well_formed_fields)
    (auto simp: child_traceparent_strict_def child_traceparent_def field_def)

lemma child_traceparent_strict_other:
  "\<not> well_formed_strict parent \<Longrightarrow> child_traceparent_strict parent ent = new_traceparent ent"
  by (auto simp: child_traceparent_strict_def well_formed_strict_def well_formed_def field_def
      unpack4_Inr split: sum.splits)
section \<open>Properties of envelope derivation\<close>

lemma draw_child_traceparent_fst:
  "fst (draw_child_traceparent parent r) = fst (child_traceparent parent (bytes r))"
  by (simp add: draw_child_traceparent_def split_beta)

lemma draw_child_traceparent_uuids:
  "uuids (snd (draw_child_traceparent parent r)) = uuids r"
  by (simp add: draw_child_traceparent_def split_beta)

lemma child_traceparent_trace_id:
  "well_formed parent \<Longrightarrow>
   trace_id_component (fst (child_traceparent parent ent)) = trace_id_component parent"
proof -
  assume w: "well_formed parent"
  then obtain version trace_id sp flags
    where p: "split_on CHR ''-'' parent = [version, trace_id, sp, flags]"
    by (rule well_formed_fields)
  show ?thesis
    by (simp add: trace_id_component_def field_def child_traceparent_fields [OF p] p)
qed

lemma child_result:
  "child e s t p rt r =
     Inr (\<lparr>envelope_version = ''1.0'',
           message_id = uuids r 0,
           conversation_id = conversation_id e,
           traceparent = fst (child_traceparent (traceparent e) (bytes r)),
           sender = s,
           target = t,
           ttl_ms = ttl_ms e,
           retries = (case rt of None \<Rightarrow> retries e | Some v \<Rightarrow> v),
           max_retries = max_retries e,
           payload = p\<rparr>,
          snd (uuid4 (snd (draw_child_traceparent (traceparent e) r))))"
  by (simp add: child_def A2AEnvelope_def no_args_def or_draw_def or_default_def uuid4_def
      draw_child_traceparent_def split_beta)

lemma child_never_fails: "\<not> isl (child e s t p rt r)"
  by (simp add: child_result)

lemma child_h_result:
  "child_h e so to po ro mo tto ks r = Inr (e', r') \<Longrightarrow>
     message_id e' = uuids r 0
     \<and> conversation_id e' = conversation_id e
     \<and> traceparent e' = (if ks then traceparent e
                         else fst (child_traceparent_strict (traceparent e) (bytes r)))
     \<and> sender e' = str_or so (sender e)
     \<and> target e' = str_or to (target e)
     \<and> ttl_ms e' = (case tto of Some v \<Rightarrow> v | None \<Rightarrow> ttl_ms e)
     \<and> retries e' = (case ro of None \<Rightarrow> retries e | Some v \<Rightarrow> v)
     \<and> max_retries e' = (case mo of None \<Rightarrow> max_retries e | Some v \<Rightarrow> v)
     \<and> payload e' = dict_or po []"
  by (auto simp: child_h_def A2AEnvelope_h_def no_args_def or_draw_def or_default_def uuid4_def
      datetime_now_def validated_def validate_ttl_ms_def validate_retries_def
      draw_child_traceparent_strict_def split_beta Let_def split: if_splits sum.splits)

lemma well_formed_strict_imp: "well_formed_strict tp \<Longrightarrow> well_formed tp"
  by (simp add: well_formed_strict_def)

text \<open>
  Claim C1, as the code has it.  A child envelope, P2P or hierarchical, with any sender,
  target, payload and overrides, has its parent's \<open>conversation_id\<close>, and its
  \<open>message_id\<close> is the next value of \<open>uuid4\<close>, whatever the parent's is.  The P2P
  \<open>child\<close> always returns an envelope, and when the parent's \<open>traceparent\<close> has
  four hyphen-separated fields the child's trace-id field is the parent's.  The hierarchical
  \<open>child\<close> keeps the trace-id field with \<open>keep_span\<close>, and otherwise when the
  parent's \<open>traceparent\<close> has four fields, the version \<open>00\<close>, a trace id of 32
  characters and flags of 2 characters; for any other parent the child's trace id is new:
  the hex of the next 16 bytes of randomness.
\<close>

theorem child_keeps_conversation:
  "\<not> isl (child e s t p rt r)
   \<and> (child e s t p rt r = Inr (e', r') \<longrightarrow>
      conversation_id e' = conversation_id e
      \<and> (well_formed (traceparent e) \<longrightarrow>
           trace_id_component (traceparent e') = trace_id_component (traceparent e))
      \<and> message_id e' = uuids r 0)
   \<and> (child_h eh so to po ro mo tto ks r = Inr (eh', rh') \<longrightarrow>
      conversation_id eh' = conversation_id eh
      \<and> (ks \<or> well_formed_strict (traceparent eh) \<longrightarrow>
           trace_id_component (traceparent eh') = trace_id_component (traceparent eh))
      \<and> (\<not> ks \<and> \<not> well_formed_strict (traceparent eh) \<longrightarrow>
           valid_traceparent (traceparent eh')
           \<and> field_bytes 1 (traceparent eh') = Some (map (bytes r) [0..<16]))
      \<and> message_id eh' = uuids r 0)"
proof (intro conjI impI)
  show "\<not> isl (child e s t p rt r)"
    by (rule child_never_fails)
next
  assume c: "child e s t p rt r = Inr (e', r')"
  from c show "conversation_id e' = conversation_id e"
    by (auto simp: child_result)
  from c show "message_id e' = uuids r 0"
    by (auto simp: child_result)
  show "trace_id_component (traceparent e') = trace_id_component (traceparent e)"
    if "well_formed (traceparent e)"
    using that c by (auto simp: child_result child_traceparent_trace_id)
next
  assume c: "child_h eh so to po ro mo tto ks r = Inr (eh', rh')"
  note f = child_h_result [OF c]
  from f show "conversation_id eh' = conversation_id eh"
    by simp
  from f show "message_id eh' = uuids r 0"
    by simp
  show "trace_id_component (traceparent eh') = trace_id_component (traceparent eh)"
    if "ks \<or> well_formed_strict (traceparent eh)"
    using that f
    by (auto simp: child_traceparent_strict_ok child_traceparent_trace_id well_formed_strict_imp)
  show "valid_traceparent (traceparent eh')"
    "field_bytes 1 (traceparent eh') = Some (map (bytes r) [0..<16])"
    if n: "\<not> ks \<and> \<not> well_formed_strict (traceparent eh)"
  proof -
    from n f have tp: "traceparent eh' = fst (new_traceparent (bytes r))"
      by (simp add: child_traceparent_strict_other)
    show "valid_traceparent (traceparent eh')"
      unfolding tp by (rule new_traceparent_valid)
    show "field_bytes 1 (traceparent eh') = Some (map (bytes r) [0..<16])"
      unfolding tp by (rule new_traceparent_bytes)
  qed
qed

text \<open>
  Claim C1 as stated fails in two ways.  When \<open>uuid4\<close> returns the parent's
  identifier again, the child carries it: nothing compares the draw with the parent.  And
  the hierarchical child of a parent whose \<open>traceparent\<close> is \<open>01-abc-def-01\<close>, which
  has four fields, does not keep the trace id \<open>abc\<close>: the assertion on the version
  fails and a new root is minted.
\<close>

theorem child_keeps_conversation_counterexample:
  "\<not> isl (child env0 ''verifier@v1'' ''writer@v1'' [] (Some 1) rng_same)
   \<and> message_id (fst (projr (child env0 ''verifier@v1'' ''writer@v1'' [] (Some 1) rng_same)))
       = message_id env0
   \<and> well_formed (traceparent env1_h)
   \<and> trace_id_component (traceparent env1_h) = Some ''abc''
   \<and> \<not> isl (child_h env1_h None (Some ''writer@v1'') None (Some 1) None None False rng0)
   \<and> trace_id_component
        (traceparent
          (fst (projr (child_h env1_h None (Some ''writer@v1'') None (Some 1) None None False rng0))))
       = Some ''01080f161d242b323940474e555c636a''"
  by code_simp

theorem child_keeps_conversation_witness:
  "well_formed (traceparent env0)
   \<and> \<not> isl (child env0 ''verifier@v1'' ''writer@v1'' [] (Some 1) rng0)
   \<and> conversation_id (fst (projr (child env0 ''verifier@v1'' ''writer@v1'' [] (Some 1) rng0)))
       = ''c0ffee00-0000-4000-8000-000000000001''
   \<and> trace_id_component
        (traceparent (fst (projr (child env0 ''verifier@v1'' ''writer@v1'' [] (Some 1) rng0))))
       = Some ''4bf92f3577b34da6a3ce929d0e0e4736''
   \<and> message_id (fst (projr (child env0 ''verifier@v1'' ''writer@v1'' [] (Some 1) rng0)))
       = ''00000000-0000-4000-8000-000000000000''
   \<and> well_formed_strict (traceparent env0_h)
   \<and> \<not> isl (child_h env0_h None (Some ''writer@v1'') None (Some 1) None None False rng0)
   \<and> conversation_id
        (fst (projr (child_h env0_h None (Some ''writer@v1'') None (Some 1) None None False rng0)))
       = ''c0ffee00-0000-4000-8000-000000000001''
   \<and> trace_id_component
        (traceparent
          (fst (projr (child_h env0_h None (Some ''writer@v1'') None (Some 1) None None False rng0))))
       = Some ''4bf92f3577b34da6a3ce929d0e0e4736''
   \<and> message_id
        (fst (projr (child_h env0_h None (Some ''writer@v1'') None (Some 1) None None False rng0)))
       = ''00000000-0000-4000-8000-000000000000''
   \<and> \<not> well_formed_strict (traceparent env1_h)
   \<and> \<not> isl (child_h env1_h None (Some ''writer@v1'') None (Some 1) None None False rng0)
   \<and> valid_traceparent
        (traceparent
          (fst (projr (child_h env1_h None (Some ''writer@v1'') None (Some 1) None None False rng0))))"
proof -
  let ?c = "child env0 ''verifier@v1'' ''writer@v1'' [] (Some 1) rng0"
  let ?h = "child_h env0_h None (Some ''writer@v1'') None (Some 1) None None False rng0"
  let ?g = "child_h env1_h None (Some ''writer@v1'') None (Some 1) None None False rng0"
  have w: "well_formed (traceparent env0)" and wh: "well_formed_strict (traceparent env0_h)"
    and wg: "\<not> well_formed_strict (traceparent env1_h)"
    by code_simp+
  have t: "trace_id_component (traceparent env0) = Some ''4bf92f3577b34da6a3ce929d0e0e4736''"
    and th: "trace_id_component (traceparent env0_h) = Some ''4bf92f3577b34da6a3ce929d0e0e4736''"
    by code_simp+
  have u: "uuids rng0 0 = ''00000000-0000-4000-8000-000000000000''"
    by code_simp
  have cid: "conversation_id env0 = ''c0ffee00-0000-4000-8000-000000000001''"
    and cidh: "conversation_id env0_h = ''c0ffee00-0000-4000-8000-000000000001''"
    by (simp_all add: env0_def env0_h_def)
  have ic: "\<not> isl ?c" and ih: "\<not> isl ?h" and ig: "\<not> isl ?g"
    by code_simp+
  obtain e' r' where c: "?c = Inr (e', r')"
    using ic by (cases ?c) auto
  obtain eh' rh' where h: "?h = Inr (eh', rh')"
    using ih by (cases ?h) auto
  obtain eg' rg' where g: "?g = Inr (eg', rg')"
    using ig by (cases ?g) auto
  note p2p = child_keeps_conversation [THEN conjunct2, THEN conjunct1, rule_format]
  note hier = child_keeps_conversation [THEN conjunct2, THEN conjunct2, rule_format]
  from p2p [OF c] w t u cid
  have 1: "conversation_id e' = ''c0ffee00-0000-4000-8000-000000000001''"
    "trace_id_component (traceparent e') = Some ''4bf92f3577b34da6a3ce929d0e0e4736''"
    "message_id e' = ''00000000-0000-4000-8000-000000000000''"
    by simp_all
  from hier [OF h] wh th u cidh
  have 2: "conversation_id eh' = ''c0ffee00-0000-4000-8000-000000000001''"
    "trace_id_component (traceparent eh') = Some ''4bf92f3577b34da6a3ce929d0e0e4736''"
    "message_id eh' = ''00000000-0000-4000-8000-000000000000''"
    by simp_all
  from hier [OF g] wg
  have 3: "valid_traceparent (traceparent eg')"
    by simp
  from w wh wg ic ih ig 1 2 3 show ?thesis
    by (simp add: c h g)
qed

lemma A2AEnvelope_h_fails_iff:
  "isl (A2AEnvelope_h a r) \<longleftrightarrow>
     i_sender a = None \<or> i_target a = None
     \<or> (\<exists>v. i_ttl_ms a = Some v \<and> v \<le> 0)
     \<or> (\<exists>v. i_retries a = Some v \<and> v < 0)
     \<or> (\<exists>v. i_max_retries a = Some v \<and> v < 0)"
  by (auto simp: A2AEnvelope_h_def validated_def validate_ttl_ms_def validate_retries_def
      split_beta Let_def split: option.splits sum.splits if_splits)

lemma A2AEnvelope_h_error: "A2AEnvelope_h a r = Inl e \<Longrightarrow> e = ValidationError"
  by (auto simp: A2AEnvelope_h_def validated_def validate_ttl_ms_def validate_retries_def
      split_beta Let_def split: option.splits sum.splits if_splits)

lemma A2AEnvelope_h_bounds:
  "A2AEnvelope_h a r = Inr (e, r') \<Longrightarrow>
     retries e = or_default (i_retries a) 0 \<and> max_retries e = or_default (i_max_retries a) 2
     \<and> ttl_ms e = or_default (i_ttl_ms a) 15000
     \<and> 0 \<le> retries e \<and> 0 \<le> max_retries e \<and> 0 < ttl_ms e"
  by (auto simp: A2AEnvelope_h_def validated_def validate_ttl_ms_def validate_retries_def
      or_default_def split_beta Let_def split: option.splits sum.splits if_splits)

text \<open>
  Claim C3, as the code has it.  Called with arguments of the types its fields declare,
  the hierarchical constructor fails, always with a
  \<open>ValidationError\<close>, exactly when \<open>sender\<close> or \<open>target\<close> is missing, a
  \<open>ttl_ms\<close> that is passed is not positive, or a \<open>retries\<close> or \<open>max_retries\<close>
  that is passed is negative.  So every envelope it builds, directly or through
  \<open>child\<close>, has \<open>0 \<le> retries\<close>, \<open>0 \<le> max_retries\<close> and \<open>0 < ttl_ms\<close>, and
  a child carries the \<open>retries\<close> override it was given.  The two counters are never
  compared with each other.
\<close>

theorem envelope_validation:
  "(isl (A2AEnvelope_h a r) \<longleftrightarrow>
       i_sender a = None \<or> i_target a = None
       \<or> (\<exists>v. i_ttl_ms a = Some v \<and> v \<le> 0)
       \<or> (\<exists>v. i_retries a = Some v \<and> v < 0)
       \<or> (\<exists>v. i_max_retries a = Some v \<and> v < 0))
   \<and> (A2AEnvelope_h a r = Inl err \<longrightarrow> err = ValidationError)
   \<and> (A2AEnvelope_h a r = Inr (e, r') \<longrightarrow>
         0 \<le> retries e \<and> 0 \<le> max_retries e \<and> 0 < ttl_ms e)
   \<and> (child_h self so to po ro mo tto ks r = Inr (e', r'') \<longrightarrow>
         0 \<le> retries e' \<and> 0 \<le> max_retries e' \<and> 0 < ttl_ms e'
         \<and> retries e' = (case ro of None \<Rightarrow> retries self | Some v \<Rightarrow> v)
         \<and> max_retries e' = (case mo of None \<Rightarrow> max_retries self | Some v \<Rightarrow> v))
   \<and> (child_h self so to po ro mo tto ks r = Inl err \<longrightarrow> err = ValidationError)"
proof (intro conjI impI)
  show "isl (A2AEnvelope_h a r) \<longleftrightarrow>
       i_sender a = None \<or> i_target a = None
       \<or> (\<exists>v. i_ttl_ms a = Some v \<and> v \<le> 0)
       \<or> (\<exists>v. i_retries a = Some v \<and> v < 0)
       \<or> (\<exists>v. i_max_retries a = Some v \<and> v < 0)"
    by (rule A2AEnvelope_h_fails_iff)
  show "err = ValidationError" if "A2AEnvelope_h a r = Inl err"
    using that by (rule A2AEnvelope_h_error)
  show "0 \<le> retries e" "0 \<le> max_retries e" "0 < ttl_ms e" if "A2AEnvelope_h a r = Inr (e, r')"
    using A2AEnvelope_h_bounds [OF that] by simp_all
  show "err = ValidationError" if "child_h self so to po ro mo tto ks r = Inl err"
    using that A2AEnvelope_h_error unfolding child_h_def by (auto simp: split_beta Let_def)
next
  assume c: "child_h self so to po ro mo tto ks r = Inr (e', r'')"
  then obtain a r1 where "A2AEnvelope_h a r1 = Inr (e', r'')"
    unfolding child_h_def by (auto simp: split_beta Let_def)
  from A2AEnvelope_h_bounds [OF this]
  show "0 \<le> retries e'" "0 \<le> max_retries e'" "0 < ttl_ms e'"
    by simp_all
  from child_h_result [OF c]
  show "retries e' = (case ro of None \<Rightarrow> retries self | Some v \<Rightarrow> v)"
    "max_retries e' = (case mo of None \<Rightarrow> max_retries self | Some v \<Rightarrow> v)"
    by simp_all
qed

text \<open>
  Claim C3 as stated fails: with \<open>retries = 3\<close> and \<open>max_retries = 2\<close> the
  hierarchical constructor, the hierarchical \<open>child\<close> and the P2P \<open>child\<close> all
  succeed and return an envelope whose \<open>retries\<close> exceeds its \<open>max_retries\<close>.
\<close>

theorem envelope_validation_counterexample:
  "\<not> isl (A2AEnvelope_h
             (no_args\<lparr>i_sender := Some ''verifier@v1'', i_target := Some ''writer@v1'',
                      i_retries := Some 3, i_max_retries := Some 2\<rparr>) rng0)
   \<and> retries (fst (projr (A2AEnvelope_h
             (no_args\<lparr>i_sender := Some ''verifier@v1'', i_target := Some ''writer@v1'',
                      i_retries := Some 3, i_max_retries := Some 2\<rparr>) rng0))) = 3
   \<and> max_retries (fst (projr (A2AEnvelope_h
             (no_args\<lparr>i_sender := Some ''verifier@v1'', i_target := Some ''writer@v1'',
                      i_retries := Some 3, i_max_retries := Some 2\<rparr>) rng0))) = 2
   \<and> \<not> isl (child_h env0_h None None None (Some 3) None None False rng0)
   \<and> retries (fst (projr (child_h env0_h None None None (Some 3) None None False rng0))) = 3
   \<and> max_retries (fst (projr (child_h env0_h None None None (Some 3) None None False rng0))) = 2
   \<and> \<not> isl (child env0 ''verifier@v1'' ''writer@v1'' [] (Some 3) rng0)
   \<and> retries (fst (projr (child env0 ''verifier@v1'' ''writer@v1'' [] (Some 3) rng0))) = 3
   \<and> max_retries (fst (projr (child env0 ''verifier@v1'' ''writer@v1'' [] (Some 3) rng0))) = 2"
  by (simp add: child_result child_h_def A2AEnvelope_h_def no_args_def or_draw_def validated_def
        validate_ttl_ms_def validate_retries_def env0_h_def env0_def str_or_def split_beta Let_def)

theorem envelope_validation_witness:
  "A2AEnvelope_h (no_args\<lparr>i_sender := Some ''verifier@v1'', i_target := Some ''writer@v1'',
                          i_retries := Some (- 1)\<rparr>) rng0 = Inl ValidationError
   \<and> \<not> isl (A2AEnvelope_h (no_args\<lparr>i_sender := Some ''verifier@v1'',
                                    i_target := Some ''writer@v1'',
                                    i_retries := Some 1\<rparr>) rng0)
   \<and> 0 \<le> retries (fst (projr (A2AEnvelope_h (no_args\<lparr>i_sender := Some ''verifier@v1'',
                                    i_target := Some ''writer@v1'',
                                    i_retries := Some 1\<rparr>) rng0)))
   \<and> \<not> isl (child_h env0_h None (Some ''writer@v1'') None (Some 1) None None False rng0)
   \<and> retries (fst (projr (child_h env0_h None (Some ''writer@v1'') None (Some 1) None None False
                            rng0))) = 1
   \<and> child_h env0_h None (Some ''writer@v1'') None (Some (- 1)) None None False rng0
       = Inl ValidationError"
proof -
  let ?bad = "no_args\<lparr>i_sender := Some ''verifier@v1'', i_target := Some ''writer@v1'',
                       i_retries := Some (- 1)\<rparr>"
  let ?good = "no_args\<lparr>i_sender := Some ''verifier@v1'', i_target := Some ''writer@v1'',
                        i_retries := Some 1\<rparr>"
  let ?c = "child_h env0_h None (Some ''writer@v1'') None (Some 1) None None False rng0"
  let ?cb = "child_h env0_h None (Some ''writer@v1'') None (Some (- 1)) None None False rng0"
  have b: "\<exists>v. i_retries ?bad = Some v \<and> v < 0"
    by simp
  have g: "\<not> (i_sender ?good = None \<or> i_target ?good = None
       \<or> (\<exists>v. i_ttl_ms ?good = Some v \<and> v \<le> 0)
       \<or> (\<exists>v. i_retries ?good = Some v \<and> v < 0)
       \<or> (\<exists>v. i_max_retries ?good = Some v \<and> v < 0))"
    by (simp add: no_args_def)
  from b envelope_validation [where a = ?bad and r = rng0]
  have "isl (A2AEnvelope_h ?bad rng0)"
    by blast
  then obtain err where eb: "A2AEnvelope_h ?bad rng0 = Inl err"
    by (cases "A2AEnvelope_h ?bad rng0") auto
  with envelope_validation [where a = ?bad and r = rng0 and err = err]
  have 1: "A2AEnvelope_h ?bad rng0 = Inl ValidationError"
    by simp
  from g envelope_validation [where a = ?good and r = rng0]
  have 2: "\<not> isl (A2AEnvelope_h ?good rng0)"
    by blast
  then obtain e r' where eg: "A2AEnvelope_h ?good rng0 = Inr (e, r')"
    by (cases "A2AEnvelope_h ?good rng0") auto
  with envelope_validation [where a = ?good and r = rng0 and e = e and r' = r']
  have 3: "0 \<le> retries (fst (projr (A2AEnvelope_h ?good rng0)))"
    by simp
  have 4: "\<not> isl ?c"
    by (simp add: child_h_def A2AEnvelope_h_def no_args_def or_draw_def validated_def
        validate_ttl_ms_def validate_retries_def env0_h_def str_or_def split_beta Let_def)
  then obtain e' r'' where ec: "?c = Inr (e', r'')"
    by (cases ?c) auto
  with envelope_validation
    [where self = env0_h and so = None and to = "Some ''writer@v1''" and po = None
       and ro = "Some 1" and mo = None and tto = None and ks = False and r = rng0
       and e' = e' and r'' = r'']
  have 5: "retries (fst (projr ?c)) = 1"
    by simp
  have "isl ?cb"
    by (simp add: child_h_def A2AEnvelope_h_def no_args_def or_draw_def validated_def
        validate_ttl_ms_def validate_retries_def env0_h_def str_or_def split_beta Let_def)
  then obtain err' where ecb: "?cb = Inl err'"
    by (cases ?cb) auto
  with envelope_validation
    [where self = env0_h and so = None and to = "Some ''writer@v1''" and po = None
       and ro = "Some (- 1)" and mo = None and tto = None and ks = False and r = rng0
       and err = err']
  have 6: "?cb = Inl ValidationError"
    by simp
  from 1 2 3 4 5 6 show ?thesis by blast
qed

section \<open>Properties of scoring\<close>






















section \<open>Properties of the Verifier\<close>

lemma model_dump_h_not_serializable: "json_dumps (model_dump_h e) = Inl TypeError"
  by (simp add: json_dumps_def model_dump_h_def)

lemma verify_h_revision_drops:
  assumes "score_with_llm_h bi cfg service
             (py_or (get (payload env) ''draft'' (PyStr [])) (PyStr []))
             (py_or (get (payload env) ''sources'' (PyList [])) (PyList []))
             (py_or (get (payload env) ''research_notes'' (PyStr [])) (PyStr [])) = Inr (score, fb)"
    and "flt score (MIN_ACCEPTABLE_SCORE cfg)" and "retries env < max_retries env"
  shows "published (verify_h bi cfg service env r) = []"
  using assms
  by (auto simp: verify_h_def published_def dict_or_def Let_def model_dump_h_not_serializable
      split: sum.splits)

lemma model_dump_serializable:
  "json_serializable (PyDict (payload e)) \<Longrightarrow> json_dumps (model_dump e) = Inr (model_dump e)"
  by (simp add: json_dumps_def model_dump_def)

lemma json_serializable_get:
  "json_serializable (PyDict d) \<Longrightarrow> json_serializable dflt \<Longrightarrow> json_serializable (get d k dflt)"
  by (auto simp: get_def list_all_iff split: option.splits dest!: map_of_SomeD)

lemma json_serializable_py_or:
  "json_serializable x \<Longrightarrow> json_serializable y \<Longrightarrow> json_serializable (py_or x y)"
  by (simp add: py_or_def)

text \<open>
  The P2P Verifier does what the transition rule says.  For an envelope whose payload
  came from JSON, whose \<open>draft\<close> and \<open>sources\<close> have a length and whose scoring
  returned, it publishes exactly one message: below the threshold with retries left, on
  \<open>demo.write.in\<close>, the dump of the child addressed to \<open>writer@v1\<close> with
  \<open>retries + 1\<close> and the payload keys \<open>role\<close>, \<open>task\<close>, \<open>sources\<close>,
  \<open>feedback\<close>; otherwise, on \<open>demo.done\<close>, the dump of the child addressed to
  \<open>client@v1\<close> with \<open>role\<close>, \<open>draft\<close>, \<open>score\<close>, \<open>sources\<close>.
\<close>

lemma verify_transition:
  fixes env :: envelope
  defines "draft \<equiv> py_or (get (payload env) ''draft'' (PyStr [])) (PyStr [])"
    and "sources \<equiv> py_or (get (payload env) ''sources'' (PyList [])) (PyList [])"
    and "rnotes \<equiv> py_or (get (payload env) ''research_notes'' (PyStr [])) (PyStr [])"
    and "task \<equiv> py_or (get (payload env) ''task'' (PyStr [])) (PyStr [])"
  assumes js: "json_serializable (PyDict (payload env))"
    and len: "py_len draft = Inr n" "py_len sources = Inr m"
    and sc: "score_with_llm bi cfg service draft sources rnotes = Inr (score, fb)"
  shows "verify bi cfg service env r =
     (if flt score (MIN_ACCEPTABLE_SCORE cfg) \<and> retries env < max_retries env
      then Inr (WRITE_IN_SUBJECT,
                model_dump (fst (projr (child env SERVICE_NAME ''writer@v1''
                   [(''role'', PyStr ''verifier''), (''task'', task),
                    (''sources'', sources), (''feedback'', PyStr fb)]
                   (Some (retries env + 1)) r))))
      else Inr (DONE_SUBJECT,
                model_dump (fst (projr (child env SERVICE_NAME ''client@v1''
                   [(''role'', PyStr ''verifier''), (''draft'', draft),
                    (''score'', PyFloat score), (''sources'', sources)]
                   None r)))))"
proof -
  have s: "json_serializable draft" "json_serializable sources" "json_serializable task"
    unfolding draft_def sources_def task_def
    using js by (simp_all add: json_serializable_py_or json_serializable_get)
  have d: "dict_or (Some (payload env)) [] = payload env"
    by (simp add: dict_or_def)
  show ?thesis
    unfolding verify_def d Let_def
    using len sc s
    by (simp add: draft_def [symmetric] sources_def [symmetric] rnotes_def [symmetric]
        task_def [symmetric] child_result json_dumps_def model_dump_def)
qed

text \<open>
  Claim C2 at a concrete input.  The hierarchical Verifier receives an envelope with
  \<open>retries = 0\<close> and \<open>max_retries = 2\<close>; the completion service scores the draft 5,
  below the threshold 7.  The claim asks for one child on \<open>demo.write.in\<close> with
  \<open>retries = 1\<close>.  The handler builds that child, but \<open>json.dumps(out.model_dump())\<close>
  raises \<open>TypeError\<close> on the \<open>datetime\<close> in \<open>created_at\<close>; the handler logs the
  failure and publishes nothing.  The P2P Verifier, on the same input, publishes on
  \<open>demo.write.in\<close>.
\<close>

theorem verifier_revision_not_published:
  "retries env0_h = 0 \<and> max_retries env0_h = 2 \<and> MIN_ACCEPTABLE_SCORE cfg0 = Fin 7
   \<and> score_with_llm_h builtins0 cfg0 svc_low (PyStr ''NATS is a message bus.'')
        (PyList [PyStr ''https://nats.io'']) (PyStr []) = Inr (Fin 5, ''Add detail.'')
   \<and> verifier_handle builtins0 cfg0 svc_low msg0_h rng0 = Inl TypeError
   \<and> published (verifier_handle builtins0 cfg0 svc_low msg0_h rng0) = []
   \<and> map fst (published (message_handler builtins0 cfg0 svc_low msg0 rng0)) = [''demo.write.in'']"
  by code_simp

text \<open>
  Claim C4 at a concrete input.  The same branch, followed over the bus with a Writer that
  answers every revision request: behind the hierarchical Verifier it ends at the first
  scoring, with no revision hop and no message on \<open>demo.done\<close>; behind the P2P
  Verifier it is final after two revision hops.
\<close>

theorem branch_dropped_at_first_revision:
  "run_branch verifier_h0 echo_writer 5 0 msg0_h = (Dropped, 0)
   \<and> snd (run_branch verifier_p2p0 echo_writer 5 0 msg0) = 2
   \<and> fst (run_branch verifier_p2p0 echo_writer 5 0 msg0) \<noteq> Dropped
   \<and> fst (run_branch verifier_p2p0 echo_writer 5 0 msg0) \<noteq> Unfinished"
  by code_simp

lemma receive_model_dump: "receive bi (Doc (model_dump e)) r = Inr (e, r)"
  by (simp add: receive_def model_dump_def init_of_doc_def field_str_def field_int_def
      field_dict_def field_datetime_def A2AEnvelope_def or_draw_def or_default_def)

lemma heuristic_score_str: "\<exists>s fb. heuristic_score (PyStr t) = Inr (s, fb)"
  by (simp add: heuristic_score_def Let_def)

lemma score_with_llm_returns:
  "\<exists>s fb. score_with_llm bi cfg service (PyStr t) sources rn = Inr (s, fb)"
  using heuristic_score_str [of t]
  by (auto simp: score_with_llm_def split: sum.splits)

lemma subjects_differ: "WRITE_IN_SUBJECT \<noteq> DONE_SUBJECT"
  by (simp add: WRITE_IN_SUBJECT_def DONE_SUBJECT_def)

text \<open>
  What the P2P Verifier does with a reviewable envelope: it publishes, and either the
  message is final, or it is the dump of an envelope with one more retry, the same
  \<open>max_retries\<close>, and \<open>retries < max_retries\<close> held.
\<close>

lemma message_handler_step:
  assumes "reviewable (payload e)"
  shows "(\<exists>doc. message_handler bi cfg service (Doc (model_dump e)) r = Inr (DONE_SUBJECT, doc))
    \<or> (\<exists>out. message_handler bi cfg service (Doc (model_dump e)) r
                = Inr (WRITE_IN_SUBJECT, model_dump out)
            \<and> retries e < max_retries e
            \<and> retries out = retries e + 1 \<and> max_retries out = max_retries e)"
proof -
  let ?draft = "py_or (get (payload e) ''draft'' (PyStr [])) (PyStr [])"
  let ?sources = "py_or (get (payload e) ''sources'' (PyList [])) (PyList [])"
  let ?rn = "py_or (get (payload e) ''research_notes'' (PyStr [])) (PyStr [])"
  from assms obtain t m where d: "?draft = PyStr t" and s: "py_len ?sources = Inr m"
    and js: "json_serializable (PyDict (payload e))"
    unfolding reviewable_def
    by (cases ?draft; cases "py_len ?sources") auto
  obtain sc fb where sc: "score_with_llm bi cfg service ?draft ?sources ?rn = Inr (sc, fb)"
    using score_with_llm_returns [of bi cfg service t ?sources ?rn] d by auto
  have l: "py_len ?draft = Inr (length t)"
    by (simp add: d)
  note v = verify_transition [OF js l s sc, of r]
  have h: "message_handler bi cfg service (Doc (model_dump e)) r = verify bi cfg service e r"
    by (simp add: message_handler_def receive_model_dump)
  show ?thesis
  proof (cases "flt sc (MIN_ACCEPTABLE_SCORE cfg) \<and> retries e < max_retries e")
    case True
    then show ?thesis
      unfolding h v by (auto simp: child_result intro!: exI)
  next
    case False
    then show ?thesis
      unfolding h v by auto
  qed
qed

text \<open>
  The retry budget bounds a branch behind the P2P Verifier.  If the Writer answers every
  revision request with an envelope that keeps \<open>retries\<close> and \<open>max_retries\<close> and has
  a reviewable payload, a branch that enters with a reviewable payload becomes final after
  at most \<open>max_retries - retries\<close> revision hops, whatever the scores are.
\<close>

lemma p2p_branch_final:
  assumes V: "\<And>k msg. V k msg = message_handler bi cfg (svc k) msg (rg k)"
    and W: "\<And>k out. \<exists>e'. W k (model_dump out) = Some (Doc (model_dump e'))
              \<and> retries e' = retries out \<and> max_retries e' = max_retries out
              \<and> reviewable (payload e')"
  shows "reviewable (payload e) \<Longrightarrow> nat (max_retries e - retries e) < fuel \<Longrightarrow>
         \<exists>doc n. run_branch V W fuel k (Doc (model_dump e)) = (Final doc, n)
                 \<and> n \<le> k + nat (max_retries e - retries e)"
proof (induction fuel arbitrary: e k)
  case 0
  then show ?case by simp
next
  case (Suc fuel)
  from message_handler_step [OF Suc.prems(1), of bi cfg "svc k" "rg k"]
  consider (final) doc where "V k (Doc (model_dump e)) = Inr (DONE_SUBJECT, doc)"
    | (revise) out where "V k (Doc (model_dump e)) = Inr (WRITE_IN_SUBJECT, model_dump out)"
        "retries e < max_retries e" "retries out = retries e + 1"
        "max_retries out = max_retries e"
    unfolding V by blast
  then show ?case
  proof cases
    case final
    then show ?thesis by simp
  next
    case revise
    from W [of k out] obtain e' where w: "W k (model_dump out) = Some (Doc (model_dump e'))"
      and c: "retries e' = retries out" "max_retries e' = max_retries out"
      and p: "reviewable (payload e')"
      by blast
    have less: "nat (max_retries e' - retries e') < fuel"
      using Suc.prems(2) revise(2-4) c by simp
    from Suc.IH [OF p less, of "Suc k"] obtain doc n
      where r: "run_branch V W fuel (Suc k) (Doc (model_dump e')) = (Final doc, n)"
        and n: "n \<le> Suc k + nat (max_retries e' - retries e')"
      by blast
    have "run_branch V W (Suc fuel) k (Doc (model_dump e)) = (Final doc, n)"
      using revise(1) w r by (simp add: subjects_differ)
    moreover have "n \<le> k + nat (max_retries e - retries e)"
      using n revise(2-4) c by simp
    ultimately show ?thesis by blast
  qed
qed


lemma echo_writer_answers:
  "echo_writer k (model_dump out)
     = Some (Doc (model_dump (out\<lparr>payload := [(''draft'', PyStr ''A revised draft.'')]\<rparr>)))
   \<and> reviewable [(''draft'', PyStr ''A revised draft.'')]"
  by (simp add: echo_writer_def model_dump_def reviewable_def get_def py_or_def)

section \<open>Properties of the planners\<close>

lemma receive_h_valid:
  "receive_h bi msg r = Inr (env, r1) \<Longrightarrow> 0 < ttl_ms env \<and> 0 \<le> retries env \<and> 0 \<le> max_retries env"
  by (auto simp: receive_h_def split: wire.splits sum.splits dest: A2AEnvelope_h_bounds)

lemma child_h_valid:
  assumes "0 < ttl_ms env" "0 \<le> retries env" "0 \<le> max_retries env"
  shows "\<exists>out r'. child_h env so to po None None None False r = Inr (out, r')
           \<and> message_id out = uuids r 0
           \<and> conversation_id out = conversation_id env
           \<and> payload out = dict_or po []
           \<and> retries out = retries env
           \<and> uuids r' = (\<lambda>i. uuids r (Suc i))"
  using assms
  by (simp add: child_h_def A2AEnvelope_h_def no_args_def or_draw_def or_default_def uuid4_def
      datetime_now_def validated_def validate_ttl_ms_def validate_retries_def
      draw_child_traceparent_strict_def split_beta Let_def)

lemma map_of_json_mode:
  "map_of (map (\<lambda>kv. (fst kv, json_mode (snd kv))) d) k = map_option json_mode (map_of d k)"
  by (induction d) auto

lemma doc_get_dump:
  "doc_get ''conversation_id'' (model_dump_json_h out) = Some (PyStr (conversation_id out))"
  "doc_get ''message_id'' (model_dump_json_h out) = Some (PyStr (message_id out))"
  "doc_get ''retries'' (model_dump_json_h out) = Some (PyInt (retries out))"
  "payload_get k (model_dump_json_h out) = map_option json_mode (map_of (payload out) k)"
  by (simp_all add: doc_get_def payload_get_def model_dump_json_h_def model_dump_h_def
      map_of_json_mode)

lemma map_shift: "f 0 # map (\<lambda>i. f (Suc i)) [0..<n] = map f [0..<Suc n]"
  by (simp add: upt_conv_Cons map_Suc_upt [symmetric] del: upt_Suc)

lemma chief_loop_fan_out:
  assumes v: "0 < ttl_ms env" "0 \<le> retries env" "0 \<le> max_retries env"
    and mr: "py_int bi (get pl ''max_retries'' (PyInt 2)) = Inr mr"
  shows "\<exists>msgs. chief_loop bi env pl ms style sources topics r = (msgs, None)
           \<and> fan_out SECTION_EDITOR_IN_SUBJECT ''chief'' ''topic'' env r topics msgs"
proof (induction topics arbitrary: r)
  case Nil
  show ?case by (simp add: fan_out_def)
next
  case (Cons t ts)
  let ?p = "[(''role'', PyStr ''chief''), (''topic'', PyStr t), (''max_sections'', PyInt ms),
             (''style'', style), (''sources'', sources), (''max_retries'', PyInt mr)]"
  from child_h_valid [OF v, of "Some CHIEF_SERVICE_NAME" "Some ''section@v1''" "Some ?p" r]
  obtain out r' where c: "child_h env (Some CHIEF_SERVICE_NAME) (Some ''section@v1'') (Some ?p)
      None None None False r = Inr (out, r')"
    and o: "message_id out = uuids r 0" "conversation_id out = conversation_id env"
      "payload out = ?p" and u: "uuids r' = (\<lambda>i. uuids r (Suc i))"
    by (auto simp: dict_or_def)
  from Cons.IH [of r'] obtain rest
    where l: "chief_loop bi env pl ms style sources ts r' = (rest, None)"
      and f: "fan_out SECTION_EDITOR_IN_SUBJECT ''chief'' ''topic'' env r' ts rest"
    by blast
  have "chief_loop bi env pl ms style sources (t # ts) r
        = ((SECTION_EDITOR_IN_SUBJECT, model_dump_json_h out) # rest, None)"
    by (simp add: mr c l)
  moreover have "fan_out SECTION_EDITOR_IN_SUBJECT ''chief'' ''topic'' env r (t # ts)
      ((SECTION_EDITOR_IN_SUBJECT, model_dump_json_h out) # rest)"
    using f unfolding fan_out_def
    by (simp add: doc_get_dump o u map_shift [of "\<lambda>i. Some (PyStr (uuids r i))"] del: upt_Suc)
  ultimately show ?case by blast
qed

lemma section_loop_fan_out:
  assumes v: "0 < ttl_ms env" "0 \<le> retries env" "0 \<le> max_retries env"
  shows "\<exists>msgs. section_loop env p topic style sources mr sections r = (msgs, None)
           \<and> fan_out WRITE_IN_SUBJECT ''section'' ''section'' env r sections msgs"
proof (induction sections arbitrary: r)
  case Nil
  show ?case by (simp add: fan_out_def)
next
  case (Cons s ss)
  let ?p = "[(''role'', PyStr ''section''), (''topic'', topic), (''section'', PyStr s),
             (''style'', style), (''sources'', sources),
             (''research_notes'', get p ''research_notes'' (PyStr [])),
             (''task'', get p ''task'' (PyStr [])), (''max_retries'', PyInt mr)]"
  from child_h_valid [OF v, of "Some SECTION_SERVICE_NAME" "Some ''writer@v1''" "Some ?p" r]
  obtain out r' where c: "child_h env (Some SECTION_SERVICE_NAME) (Some ''writer@v1'') (Some ?p)
      None None None False r = Inr (out, r')"
    and o: "message_id out = uuids r 0" "conversation_id out = conversation_id env"
      "payload out = ?p" and u: "uuids r' = (\<lambda>i. uuids r (Suc i))"
    by (auto simp: dict_or_def)
  from Cons.IH [of r'] obtain rest
    where l: "section_loop env p topic style sources mr ss r' = (rest, None)"
      and f: "fan_out WRITE_IN_SUBJECT ''section'' ''section'' env r' ss rest"
    by blast
  have "section_loop env p topic style sources mr (s # ss) r
        = ((WRITE_IN_SUBJECT, model_dump_json_h out) # rest, None)"
    by (simp add: c l)
  moreover have "fan_out WRITE_IN_SUBJECT ''section'' ''section'' env r (s # ss)
      ((WRITE_IN_SUBJECT, model_dump_json_h out) # rest)"
    using f unfolding fan_out_def
    by (simp add: doc_get_dump o u map_shift [of "\<lambda>i. Some (PyStr (uuids r i))"] del: upt_Suc)
  ultimately show ?case by blast
qed

lemma fan_out_length: "fan_out subject role key env r items msgs \<Longrightarrow> length msgs = length items"
  unfolding fan_out_def by (metis length_map length_replicate)

lemma fan_out_distinct:
  assumes "fan_out subject role key env r items msgs"
    and "distinct (map (uuids r) [0..<length items])"
  shows "distinct (map (doc_get ''message_id'' \<circ> snd) msgs)"
proof -
  have "map (doc_get ''message_id'' \<circ> snd) msgs
        = map (\<lambda>u. Some (PyStr u)) (map (uuids r) [0..<length items])"
    using assms(1) by (simp add: fan_out_def comp_def)
  moreover have "inj (\<lambda>u. Some (PyStr u))"
    by (simp add: inj_on_def)
  ultimately show ?thesis
    using assms(2) by (simp only: distinct_map) (auto intro: inj_on_subset)
qed

lemma chief_handle_fan_out:
  assumes rc: "receive_h bi msg r = Inr (env, r1)"
    and mt: "py_int bi (get (payload env) ''max_topics'' (PyInt 5)) = Inr mt"
    and ms: "py_int bi (get (payload env) ''max_sections'' (PyInt 6)) = Inr ms"
    and pr: "propose (get (payload env) ''area'' (PyStr ''General'')) mt = Inr topics"
    and mr: "topics = [] \<or> py_int bi (get (payload env) ''max_retries'' (PyInt 2)) = Inr mr"
  shows "\<exists>msgs. chief_handle bi propose msg r = (msgs, None)
           \<and> fan_out SECTION_EDITOR_IN_SUBJECT ''chief'' ''topic'' env r1 topics msgs"
proof -
  have d: "dict_or (Some (payload env)) [] = payload env"
    by (simp add: dict_or_def)
  let ?style = "get (payload env) ''style'' (PyStr default_style)"
  let ?sources = "py_or (get (payload env) ''sources'' (PyList [])) (PyList [])"
  have h: "chief_handle bi propose msg r
           = chief_loop bi env (payload env) ms ?style ?sources topics r1"
    by (simp add: chief_handle_def rc d mt ms pr Let_def)
  from mr show ?thesis
  proof
    assume "topics = []"
    then show ?thesis by (simp add: h fan_out_def)
  next
    assume "py_int bi (get (payload env) ''max_retries'' (PyInt 2)) = Inr mr"
    with receive_h_valid [OF rc] show ?thesis
      unfolding h by (intro chief_loop_fan_out) simp_all
  qed
qed

lemma section_handle_fan_out:
  assumes rc: "receive_h bi msg r = Inr (env, r1)"
    and ms: "py_int bi (get (payload env) ''max_sections'' (PyInt 6)) = Inr ms"
    and mr: "py_int bi (get (payload env) ''max_retries'' (PyInt 2)) = Inr mr"
    and pl: "plan (get (payload env) ''topic'' (PyStr ''Untitled'')) ms = Inr sections"
  shows "\<exists>msgs. section_handle bi plan msg r = (msgs, None)
           \<and> fan_out WRITE_IN_SUBJECT ''section'' ''section'' env r1 sections msgs"
proof -
  have d: "dict_or (Some (payload env)) [] = payload env"
    by (simp add: dict_or_def)
  have h: "section_handle bi plan msg r
           = section_loop env (payload env) (get (payload env) ''topic'' (PyStr ''Untitled''))
               (get (payload env) ''style'' (PyStr default_style))
               (get (payload env) ''sources'' (PyList [])) mr sections r1"
    by (simp add: section_handle_def rc d ms mr pl Let_def)
  from receive_h_valid [OF rc] show ?thesis
    unfolding h by (intro section_loop_fan_out) simp_all
qed

text \<open>
  Claim C5, as the code has it.  When a planner has received its envelope, converted the
  limits it reads from the payload and got \<open>k\<close> items from its delegate, it publishes
  \<open>k\<close> children and ends without an exception, provided, for the Chief Editor with
  \<open>k > 0\<close>, that \<open>int\<close> also accepts the payload's \<open>max_retries\<close>, which that
  handler converts inside the loop (the Section Editor converts it before it calls its
  delegate).  The children are one per item in the delegate's order, all with the parent's
  \<open>conversation_id\<close>, the \<open>i\<close>-th with the \<open>i\<close>-th \<open>uuid4\<close> draw as
  \<open>message_id\<close>: distinct ids whenever the draws are distinct.  With \<open>k = 0\<close> nothing
  is published.
\<close>

theorem planner_fan_out:
  "(receive_h bi msg r = Inr (env, r1)
      \<and> py_int bi (get (payload env) ''max_topics'' (PyInt 5)) = Inr mt
      \<and> py_int bi (get (payload env) ''max_sections'' (PyInt 6)) = Inr ms
      \<and> propose (get (payload env) ''area'' (PyStr ''General'')) mt = Inr topics
      \<and> (topics = [] \<or> py_int bi (get (payload env) ''max_retries'' (PyInt 2)) = Inr mr)
    \<longrightarrow> (\<exists>msgs. chief_handle bi propose msg r = (msgs, None)
           \<and> length msgs = length topics
           \<and> fan_out SECTION_EDITOR_IN_SUBJECT ''chief'' ''topic'' env r1 topics msgs
           \<and> (distinct (map (uuids r1) [0..<length topics])
                \<longrightarrow> distinct (map (doc_get ''message_id'' \<circ> snd) msgs))))
   \<and> (receive_h bi msg' r = Inr (env', r1')
      \<and> py_int bi (get (payload env') ''max_sections'' (PyInt 6)) = Inr ms'
      \<and> py_int bi (get (payload env') ''max_retries'' (PyInt 2)) = Inr mr'
      \<and> plan (get (payload env') ''topic'' (PyStr ''Untitled'')) ms' = Inr sections
    \<longrightarrow> (\<exists>msgs. section_handle bi plan msg' r = (msgs, None)
           \<and> length msgs = length sections
           \<and> fan_out WRITE_IN_SUBJECT ''section'' ''section'' env' r1' sections msgs
           \<and> (distinct (map (uuids r1') [0..<length sections])
                \<longrightarrow> distinct (map (doc_get ''message_id'' \<circ> snd) msgs))))"
proof (intro conjI impI)
  assume "receive_h bi msg r = Inr (env, r1)
      \<and> py_int bi (get (payload env) ''max_topics'' (PyInt 5)) = Inr mt
      \<and> py_int bi (get (payload env) ''max_sections'' (PyInt 6)) = Inr ms
      \<and> propose (get (payload env) ''area'' (PyStr ''General'')) mt = Inr topics
      \<and> (topics = [] \<or> py_int bi (get (payload env) ''max_retries'' (PyInt 2)) = Inr mr)"
  then obtain msgs where "chief_handle bi propose msg r = (msgs, None)"
    and "fan_out SECTION_EDITOR_IN_SUBJECT ''chief'' ''topic'' env r1 topics msgs"
    using chief_handle_fan_out [of bi msg r env r1 mt ms propose topics mr] by blast
  then show "\<exists>msgs. chief_handle bi propose msg r = (msgs, None)
           \<and> length msgs = length topics
           \<and> fan_out SECTION_EDITOR_IN_SUBJECT ''chief'' ''topic'' env r1 topics msgs
           \<and> (distinct (map (uuids r1) [0..<length topics])
                \<longrightarrow> distinct (map (doc_get ''message_id'' \<circ> snd) msgs))"
    using fan_out_length fan_out_distinct by blast
next
  assume "receive_h bi msg' r = Inr (env', r1')
      \<and> py_int bi (get (payload env') ''max_sections'' (PyInt 6)) = Inr ms'
      \<and> py_int bi (get (payload env') ''max_retries'' (PyInt 2)) = Inr mr'
      \<and> plan (get (payload env') ''topic'' (PyStr ''Untitled'')) ms' = Inr sections"
  then obtain msgs where "section_handle bi plan msg' r = (msgs, None)"
    and "fan_out WRITE_IN_SUBJECT ''section'' ''section'' env' r1' sections msgs"
    using section_handle_fan_out [of bi msg' r env' r1' ms' mr' plan sections] by blast
  then show "\<exists>msgs. section_handle bi plan msg' r = (msgs, None)
           \<and> length msgs = length sections
           \<and> fan_out WRITE_IN_SUBJECT ''section'' ''section'' env' r1' sections msgs
           \<and> (distinct (map (uuids r1') [0..<length sections])
                \<longrightarrow> distinct (map (doc_get ''message_id'' \<circ> snd) msgs))"
    using fan_out_length fan_out_distinct by blast
qed

text \<open>
  Claim C5 as stated fails: a seed whose payload has \<open>"max_retries": null\<close> reaches the
  Chief Editor's delegate, which returns one topic; \<open>int(None)\<close> then raises
  \<open>TypeError\<close> in the first pass of the loop and no child is published.
\<close>

theorem planner_fan_out_counterexample:
  "delegate1 (PyStr ''AI in Climate Modeling'') 3 = Inr [''Edge inference'']
   \<and> chief_handle builtins0 delegate1 seed_null rng0 = ([], Some TypeError)"
  by code_simp

theorem planner_fan_out_witness:
  "(\<exists>msgs. chief_handle builtins0 delegate3 seed_ok rng0 = (msgs, None) \<and> length msgs = 3
       \<and> distinct (map (doc_get ''message_id'' \<circ> snd) msgs))
   \<and> (\<exists>msgs. chief_handle builtins0 delegate_none seed_ok rng0 = (msgs, None) \<and> length msgs = 0)
   \<and> (\<exists>msgs. section_handle builtins0 delegate3 seed_ok rng0 = (msgs, None) \<and> length msgs = 3
       \<and> distinct (map (doc_get ''message_id'' \<circ> snd) msgs))"
proof -
  let ?rc = "receive_h builtins0 seed_ok rng0"
  let ?env = "fst (projr ?rc)" and ?r1 = "snd (projr ?rc)"
  have "\<not> isl ?rc"
    by code_simp
  then have rc: "?rc = Inr (?env, ?r1)"
    by (cases ?rc) auto
  have pl: "payload ?env = [(''area'', PyStr ''AI in Climate Modeling''), (''max_topics'', PyInt 3),
                   (''max_sections'', PyInt 5), (''max_retries'', PyInt 2)]"
    by code_simp
  have mt: "py_int builtins0 (get (payload ?env) ''max_topics'' (PyInt 5)) = Inr 3"
    and ms: "py_int builtins0 (get (payload ?env) ''max_sections'' (PyInt 6)) = Inr 5"
    and mr: "py_int builtins0 (get (payload ?env) ''max_retries'' (PyInt 2)) = Inr 2"
    by (simp_all add: pl get_def)
  have d3: "delegate3 x 3 = Inr [''Edge inference'', ''Satellite data'', ''Model drift'']"
    "delegate3 x 5 = Inr [''Edge inference'', ''Satellite data'', ''Model drift'']"
    and d0: "delegate_none x 3 = Inr []" for x
    by (simp_all add: delegate3_def delegate_none_def)
  have u: "distinct (map (uuids ?r1) [0..<3])"
    by code_simp
  note c3 = planner_fan_out [where bi = builtins0 and msg = seed_ok and r = rng0 and env = ?env
      and ?r1.0 = ?r1 and mt = 3 and ms = 5 and mr = 2 and propose = delegate3
      and topics = "[''Edge inference'', ''Satellite data'', ''Model drift'']"
      and msg' = seed_ok and env' = ?env and ?r1' = ?r1 and ms' = 5 and mr' = 2
      and plan = delegate3
      and sections = "[''Edge inference'', ''Satellite data'', ''Model drift'']"]
  note c0 = planner_fan_out [where bi = builtins0 and msg = seed_ok and r = rng0 and env = ?env
      and ?r1.0 = ?r1 and mt = 3 and ms = 5 and mr = 2 and propose = delegate_none
      and topics = "[]"]
  let ?items = "[''Edge inference'', ''Satellite data'', ''Model drift'']"
  have len: "length ?items = 3"
    by simp
  have h1: "receive_h builtins0 seed_ok rng0 = Inr (?env, ?r1)
      \<and> py_int builtins0 (get (payload ?env) ''max_topics'' (PyInt 5)) = Inr 3
      \<and> py_int builtins0 (get (payload ?env) ''max_sections'' (PyInt 6)) = Inr 5
      \<and> delegate3 (get (payload ?env) ''area'' (PyStr ''General'')) 3 = Inr ?items
      \<and> (?items = [] \<or> py_int builtins0 (get (payload ?env) ''max_retries'' (PyInt 2)) = Inr 2)"
    using rc mt ms mr d3(1) by blast
  have h2: "receive_h builtins0 seed_ok rng0 = Inr (?env, ?r1)
      \<and> py_int builtins0 (get (payload ?env) ''max_sections'' (PyInt 6)) = Inr 5
      \<and> py_int builtins0 (get (payload ?env) ''max_retries'' (PyInt 2)) = Inr 2
      \<and> delegate3 (get (payload ?env) ''topic'' (PyStr ''Untitled'')) 5 = Inr ?items"
    using rc ms mr d3(2) by blast
  have h0: "receive_h builtins0 seed_ok rng0 = Inr (?env, ?r1)
      \<and> py_int builtins0 (get (payload ?env) ''max_topics'' (PyInt 5)) = Inr 3
      \<and> py_int builtins0 (get (payload ?env) ''max_sections'' (PyInt 6)) = Inr 5
      \<and> delegate_none (get (payload ?env) ''area'' (PyStr ''General'')) 3 = Inr []
      \<and> ([] = ([] :: string list)
          \<or> py_int builtins0 (get (payload ?env) ''max_retries'' (PyInt 2)) = Inr 2)"
    using rc mt ms d0 by blast
  from c3 h1 obtain msgs1 where m1: "chief_handle builtins0 delegate3 seed_ok rng0 = (msgs1, None)"
    "length msgs1 = length ?items"
    "distinct (map (uuids ?r1) [0..<length ?items])
       \<longrightarrow> distinct (map (doc_get ''message_id'' \<circ> snd) msgs1)"
    by blast
  from c3 h2 obtain msgs2 where m2: "section_handle builtins0 delegate3 seed_ok rng0 = (msgs2, None)"
    "length msgs2 = length ?items"
    "distinct (map (uuids ?r1) [0..<length ?items])
       \<longrightarrow> distinct (map (doc_get ''message_id'' \<circ> snd) msgs2)"
    by blast
  from c0 h0 obtain msgs0 where m0: "chief_handle builtins0 delegate_none seed_ok rng0 = (msgs0, None)"
    "length msgs0 = length ([] :: string list)"
    by blast
  from m1 u have 1: "\<exists>msgs. chief_handle builtins0 delegate3 seed_ok rng0 = (msgs, None)
       \<and> length msgs = 3 \<and> distinct (map (doc_get ''message_id'' \<circ> snd) msgs)"
    unfolding len by blast
  from m2 u have 3: "\<exists>msgs. section_handle builtins0 delegate3 seed_ok rng0 = (msgs, None)
       \<and> length msgs = 3 \<and> distinct (map (doc_get ''message_id'' \<circ> snd) msgs)"
    unfolding len by blast
  from m0 have 2: "\<exists>msgs. chief_handle builtins0 delegate_none seed_ok rng0 = (msgs, None)
       \<and> length msgs = 0"
    by simp
  from 1 2 3 show ?thesis by blast
qed

section \<open>Properties of the aggregating client\<close>

lemma done_cb_matches:
  "done_cb cid q msg = (if matches cid msg then q @ [case msg of Doc d \<Rightarrow> d] else q)"
  by (auto simp: done_cb_def matches_def py_get_def get_def split: wire.splits py.splits option.splits)

lemma foldl_done_cb_filter:
  "foldl (done_cb cid) q (filter (matches cid) ms) = foldl (done_cb cid) q ms"
  by (induction ms arbitrary: q) (simp_all add: done_cb_matches)

lemma loop_pass_only_matching:
  "loop_pass cfg cid st (only_matching cid tk) = loop_pass cfg cid st tk"
  by (simp add: loop_pass_def only_matching_def foldl_done_cb_filter Let_def split: list.splits)

lemma collect_only_matching:
  "collect cfg cid st (map (only_matching cid) ticks) = collect cfg cid st ticks"
  by (induction ticks arbitrary: st)
    (simp_all add: loop_pass_only_matching split: prod.splits option.splits)

text \<open>
  Claim C8.  A message on \<open>demo.done\<close> that is not an object with exactly the client's
  \<open>conversation_id\<close> is not put on the queue.  The loop reads nothing but the queue, so
  removing every such message from what arrives changes no pass and no run of the loop:
  the count of results, the idle timer and the reason for stopping are the same.
\<close>

theorem other_conversations_ignored:
  "(\<not> matches cid msg \<longrightarrow> done_cb cid q msg = q)
   \<and> (matches cid msg \<longrightarrow> (\<exists>data. msg = Doc data \<and> done_cb cid q msg = q @ [data]))
   \<and> loop_pass cfg cid st (only_matching cid tk) = loop_pass cfg cid st tk
   \<and> collect cfg cid st (map (only_matching cid) ticks) = collect cfg cid st ticks
   \<and> main cfg cid q t0 t1 (map (only_matching cid) ticks) = main cfg cid q t0 t1 ticks"
proof (intro conjI impI)
  show "done_cb cid q msg = q" if "\<not> matches cid msg"
    using that by (simp add: done_cb_matches)
  show "\<exists>data. msg = Doc data \<and> done_cb cid q msg = q @ [data]" if "matches cid msg"
    using that by (cases msg) (auto simp: done_cb_matches matches_def)
  show "loop_pass cfg cid st (only_matching cid tk) = loop_pass cfg cid st tk"
    by (rule loop_pass_only_matching)
  show "collect cfg cid st (map (only_matching cid) ticks) = collect cfg cid st ticks"
    by (rule collect_only_matching)
  show "main cfg cid q t0 t1 (map (only_matching cid) ticks) = main cfg cid q t0 t1 ticks"
    by (simp add: main_def collect_only_matching)
qed

theorem other_conversations_ignored_witness:
  "\<not> matches cid0 other_msg
   \<and> done_cb cid0 [] other_msg = []
   \<and> collect client_cfg0 cid0 (initial_state [] 0 0) (map (only_matching cid0) mixed_run)
       = collect client_cfg0 cid0 (initial_state [] 0 0) mixed_run
   \<and> received (snd (collect client_cfg0 cid0 (initial_state [] 0 0) mixed_run)) = 1"
proof -
  have n: "\<not> matches cid0 other_msg"
    by (simp add: matches_def other_msg_def cid0_def)
  note t = other_conversations_ignored [where cid = cid0 and msg = other_msg and q = "[]"
      and cfg = client_cfg0 and st = "initial_state [] 0 0" and ticks = mixed_run]
  have r: "received (snd (collect client_cfg0 cid0 (initial_state [] 0 0) mixed_run)) = 1"
    by code_simp
  from n t r show ?thesis by blast
qed














text \<open>
  Claim C10, as the code has it.  \<open>main\<close> has no exit code of its own: the process
  exits with status 0 whenever the loop stops on the overall timeout, the idle timeout or
  the expected count, whatever the number of results collected, zero included; it exits
  with status 1 only when an exception leaves \<open>run_client\<close>.
\<close>

theorem exit_status_of_run:
  "(fst (collect cfg cid (initial_state q t0 t1) ticks) = Some s
      \<and> (s = Overall_timeout \<or> s = Idle_timeout \<or> s = Expected_count)
      \<longrightarrow> fst (main cfg cid q t0 t1 ticks) = Some 0)
   \<and> (fst (collect cfg cid (initial_state q t0 t1) ticks) = Some (Raised e)
      \<longrightarrow> fst (main cfg cid q t0 t1 ticks) = Some 1)
   \<and> (fst (collect cfg cid (initial_state q t0 t1) ticks) = None
      \<longrightarrow> fst (main cfg cid q t0 t1 ticks) = None)
   \<and> snd (main cfg cid q t0 t1 ticks)
       = received (snd (collect cfg cid (initial_state q t0 t1) ticks))"
  by (auto simp: main_def exit_status_def split_beta)

text \<open>
  Claim C10 as stated fails: with the idle timeout of 2 s and no message at all, the loop
  stops on the idle timeout with zero results and the client exits with status 0.
\<close>

theorem exit_status_of_run_counterexample:
  "idle_timeout_sec client_cfg0 = Fin 2
   \<and> collect client_cfg0 cid0 (initial_state [] 0 0) quiet_run
       = (Some Idle_timeout, \<lparr>done_queue = [], received = 0, idle_start = 0, start_ts = 0\<rparr>)
   \<and> main client_cfg0 cid0 [] 0 0 quiet_run = (Some 0, 0)"
  by code_simp

theorem exit_status_of_run_witness:
  "fst (collect client_cfg0 cid0 (initial_state [] 0 0) spec_run) = Some Idle_timeout
   \<and> fst (main client_cfg0 cid0 [] 0 0 spec_run) = Some 0
   \<and> snd (main client_cfg0 cid0 [] 0 0 spec_run) = 3
   \<and> fst (collect client_cfg0 cid0 (initial_state [] 0 0) bad_run) = Some (Raised AttributeError)
   \<and> fst (main client_cfg0 cid0 [] 0 0 bad_run) = Some 1"
proof -
  have a: "fst (collect client_cfg0 cid0 (initial_state [] 0 0) spec_run) = Some Idle_timeout"
    by code_simp
  have b: "fst (collect client_cfg0 cid0 (initial_state [] 0 0) bad_run)
            = Some (Raised AttributeError)"
    by code_simp
  have r: "received (snd (collect client_cfg0 cid0 (initial_state [] 0 0) spec_run)) = 3"
    by code_simp
  note ok = exit_status_of_run [THEN conjunct1, rule_format]
  note raised = exit_status_of_run [THEN conjunct2, THEN conjunct1, rule_format]
  note count = exit_status_of_run [THEN conjunct2, THEN conjunct2, THEN conjunct2]
  have 1: "fst (main client_cfg0 cid0 [] 0 0 spec_run) = Some 0"
    using a by (intro ok [of _ _ _ _ _ _ Idle_timeout]) simp
  have 2: "fst (main client_cfg0 cid0 [] 0 0 bad_run) = Some 1"
    using b by (rule raised)
  have 3: "snd (main client_cfg0 cid0 [] 0 0 spec_run) = 3"
    using r by (simp only: count)
  from a b 1 2 3 show ?thesis by blast
qed

end
